theory Spec2Isabelle
  imports Complex_Main "HOL-Library.Log_Nat"
begin

section \<open>Python values\<close>

text \<open>
  The exceptions that can occur in the modelled code. \<open>SocketError\<close> stands for
  \<^verbatim>\<open>socket.error\<close> (an alias of \<^verbatim>\<open>OSError\<close>/\<^verbatim>\<open>IOError\<close>), \<open>SocketTimeout\<close>
  for its subclass \<^verbatim>\<open>socket.timeout\<close>. \<open>KeyboardInterrupt\<close> derives from
  \<^verbatim>\<open>BaseException\<close> and is therefore not caught by \<^verbatim>\<open>except Exception\<close>.
\<close>

datatype py_error =
    ValueError
  | TypeError
  | AttributeError
  | SocketError
  | SocketTimeout
  | KeyboardInterrupt

section \<open>IEEE 754 double precision\<close>

text \<open>
  The samples of a profile, the tolerance and every intermediate value of the comparator
  are \<^verbatim>\<open>float64\<close> numbers. A finite number is given by its exact value; the two
  infinities and NaN are values of their own. The two zeros are identified, and so are
  all NaNs: the only division is that of a sum by a count of elements, and the code never
  looks at a sign bit or a payload, so no operation below tells them apart.
  Floating-point warnings are not modelled; numpy does not raise on them. \<open>Finite r\<close>
  is a double when \<open>r\<close> is one; every operation rounds its result to one.
\<close>

datatype float64 = Finite real | PInf | NInf | NaN

text \<open>The exponent \<open>e\<close> of a non-zero real: \<open>2 ^ e \<le> \<bar>x\<bar> < 2 ^ (e + 1)\<close>.\<close>

definition exponente :: "real \<Rightarrow> int" where
  "exponente x =
     (if \<bar>x\<bar> \<ge> 1 then bitlen \<lfloor>\<bar>x\<bar>\<rfloor> - 1
      else - bitlen (\<lceil>1 / \<bar>x\<bar>\<rceil> - 1))"

text \<open>Rounding to the nearest integer, a tie to the even one.\<close>

definition round_half_even :: "real \<Rightarrow> int" where
  "round_half_even q =
     (let n = \<lfloor>q\<rfloor>; f = q - of_int n
      in if f < 1 / 2 then n
         else if f > 1 / 2 then n + 1
         else if even n then n else n + 1)"

text \<open>
  The rounding of every arithmetic operation (round to nearest, ties to even): 53
  significant bits, the smallest exponent is -1022 (below it the spacing stays
  \<open>2 ^ -1074\<close>), and a rounded magnitude of \<open>2 ^ 1024\<close> or more overflows to an infinity.
\<close>

definition redondear :: "real \<Rightarrow> float64" where
  "redondear x =
     (if x = 0 then Finite 0
      else
        let e = max (exponente x) (- 1022);
            ulp = 2 powi (e - 52);
            r = of_int (round_half_even (x / ulp)) * ulp
        in if \<bar>r\<bar> \<ge> 2 powi 1024 then (if x > 0 then PInf else NInf) else Finite r)"

fun fneg :: "float64 \<Rightarrow> float64" where
  "fneg (Finite a) = Finite (- a)"
| "fneg PInf = NInf"
| "fneg NInf = PInf"
| "fneg NaN = NaN"

fun fadd :: "float64 \<Rightarrow> float64 \<Rightarrow> float64" where
  "fadd (Finite a) (Finite b) = redondear (a + b)"
| "fadd NaN y = NaN"
| "fadd x NaN = NaN"
| "fadd PInf NInf = NaN"
| "fadd NInf PInf = NaN"
| "fadd PInf y = PInf"
| "fadd x PInf = PInf"
| "fadd NInf y = NInf"
| "fadd x NInf = NInf"

definition fsub :: "float64 \<Rightarrow> float64 \<Rightarrow> float64" where
  "fsub x y = fadd x (fneg y)"

text \<open>
  Division of a float by a count of elements, which numpy converts to a float first.
  A count of zero is the zero divisor of \<^verbatim>\<open>np.mean\<close> on an empty array.
\<close>

fun fdiv_count :: "float64 \<Rightarrow> nat \<Rightarrow> float64" where
  "fdiv_count NaN n = NaN"
| "fdiv_count PInf n = PInf"
| "fdiv_count NInf n = NInf"
| "fdiv_count (Finite a) n =
     (case redondear (real n) of
        Finite d \<Rightarrow>
          if d = 0 then (if a = 0 then NaN else if a > 0 then PInf else NInf)
          else redondear (a / d)
      | PInf \<Rightarrow> Finite 0
      | NInf \<Rightarrow> Finite 0
      | NaN \<Rightarrow> NaN)"

fun fabs :: "float64 \<Rightarrow> float64" where
  "fabs (Finite a) = Finite \<bar>a\<bar>"
| "fabs PInf = PInf"
| "fabs NInf = PInf"
| "fabs NaN = NaN"

fun isnan :: "float64 \<Rightarrow> bool" where
  "isnan NaN = True"
| "isnan x = False"

fun es_finito :: "float64 \<Rightarrow> bool" where
  "es_finito (Finite a) = True"
| "es_finito x = False"

text \<open>The value of a finite number (only used of finite numbers).\<close>

fun valor :: "float64 \<Rightarrow> real" where
  "valor (Finite a) = a"
| "valor x = 0"

text \<open>\<open>x > y\<close> and \<open>x \<ge> y\<close>; every comparison with NaN is false.\<close>

fun fgt :: "float64 \<Rightarrow> float64 \<Rightarrow> bool" where
  "fgt (Finite a) (Finite b) = (a > b)"
| "fgt NaN y = False"
| "fgt x NaN = False"
| "fgt x PInf = False"
| "fgt NInf y = False"
| "fgt PInf y = True"
| "fgt x NInf = True"

fun fge :: "float64 \<Rightarrow> float64 \<Rightarrow> bool" where
  "fge (Finite a) (Finite b) = (a \<ge> b)"
| "fge NaN y = False"
| "fge x NaN = False"
| "fge PInf y = True"
| "fge x NInf = True"
| "fge x PInf = False"
| "fge NInf y = False"

section \<open>The numpy operations used by the comparator\<close>

text \<open>A profile is a one-dimensional numpy array of \<^verbatim>\<open>float64\<close>.\<close>

type_synonym perfil = "float64 list"

text \<open>
  \<^verbatim>\<open>np.add.reduce\<close> on a contiguous array of doubles is numpy's pairwise summation
  (\<^verbatim>\<open>DOUBLE_pairwise_sum\<close> in \<^verbatim>\<open>loops_utils.h.src\<close>): fewer than 8 elements are added
  from left to right; up to 128 elements are added in 8 interleaved partial sums, which
  are then combined as a balanced tree, and the remaining elements are added one by one;
  a longer array is split at a multiple of 8 near its middle.
\<close>

function acumular :: "float64 list \<Rightarrow> float64 list \<Rightarrow> float64 list" where
  "acumular r xs =
     (if length xs < 8 then r
      else acumular (map2 fadd r (take 8 xs)) (drop 8 xs))"
  by pat_completeness auto
termination
  by (relation "measure (\<lambda>(r, xs). length xs)") auto

function pairwise_sum :: "float64 list \<Rightarrow> float64" where
  "pairwise_sum a =
     (if length a < 8 then foldl fadd (Finite 0) a
      else if length a \<le> 128 then
        (let r = acumular (take 8 a)
                   (take (length a - length a mod 8 - 8) (drop 8 a));
             res = fadd (fadd (fadd (r ! 0) (r ! 1)) (fadd (r ! 2) (r ! 3)))
                        (fadd (fadd (r ! 4) (r ! 5)) (fadd (r ! 6) (r ! 7)))
         in foldl fadd res (drop (length a - length a mod 8) a))
      else
        fadd (pairwise_sum (take (length a div 2 - length a div 2 mod 8) a))
             (pairwise_sum (drop (length a div 2 - length a div 2 mod 8) a)))"
  by pat_completeness auto
termination
  by (relation "measure length") auto

text \<open>\<^verbatim>\<open>np.sum\<close>: the reduction starts from the identity of addition.\<close>

definition np_sum :: "perfil \<Rightarrow> float64" where
  "np_sum a = fadd (Finite 0) (pairwise_sum a)"

text \<open>
  \<^verbatim>\<open>np.mean(a)\<close>: the sum divided by the number of elements. On an empty array this
  is 0/0, that is NaN, with a warning.
\<close>

definition np_mean :: "perfil \<Rightarrow> float64" where
  "np_mean a = fdiv_count (np_sum a) (length a)"

text \<open>\<^verbatim>\<open>a - m\<close> for an array \<open>a\<close> and a scalar \<open>m\<close>.\<close>

definition np_sub_escalar :: "perfil \<Rightarrow> float64 \<Rightarrow> perfil" where
  "np_sub_escalar a m = map (\<lambda>x. fsub x m) a"

text \<open>
  \<^verbatim>\<open>a - b\<close> for two one-dimensional arrays: elementwise when the lengths agree, an
  array of length 1 is broadcast against the other one, any other pair of shapes raises
  \<^verbatim>\<open>ValueError\<close>.
\<close>

definition np_sub :: "perfil \<Rightarrow> perfil \<Rightarrow> py_error + perfil" where
  "np_sub a b =
     (if length a = length b then Inr (map2 fsub a b)
      else if length a = 1 then Inr (map (\<lambda>y. fsub (hd a) y) b)
      else if length b = 1 then Inr (map (\<lambda>x. fsub x (hd b)) a)
      else Inl ValueError)"

definition np_abs :: "perfil \<Rightarrow> perfil" where
  "np_abs a = map fabs a"

text \<open>\<^verbatim>\<open>np.maximum(x, y)\<close>: \<^verbatim>\<open>(x >= y || isnan(x)) ? x : y\<close>, so a NaN wins.\<close>

definition np_maximum :: "float64 \<Rightarrow> float64 \<Rightarrow> float64" where
  "np_maximum x y = (if fge x y \<or> isnan x then x else y)"

text \<open>
  \<^verbatim>\<open>np.max(a)\<close>, the reduction by \<^verbatim>\<open>np.maximum\<close>: raises \<^verbatim>\<open>ValueError\<close> on a
  zero-size array.
\<close>

definition np_max :: "perfil \<Rightarrow> py_error + float64" where
  "np_max a = (case a of [] \<Rightarrow> Inl ValueError | x # xs \<Rightarrow> Inr (foldl np_maximum x xs))"

section \<open>The inspection system of \<^verbatim>\<open>main.3.py\<close>\<close>

text \<open>
  \<^verbatim>\<open>class CognexPerfilometro\<close>: the only attribute the rest of the program reads is
  \<^verbatim>\<open>is_connected\<close>. The address and the socket handle are not modelled; every
  operation on the socket takes its outcome from the environment.
\<close>

record CognexPerfilometro =
  is_connected :: bool

text \<open>
  A socket object of the cobot link. The flag records whether \<^verbatim>\<open>connect\<close> succeeded
  on it; Python has no such attribute, it is kept to tell a freshly created socket from
  a connected one.
\<close>

datatype socket = Socket bool

text \<open>
  \<^verbatim>\<open>class SistemaInspeccion\<close>. \<open>None\<close> is Python's \<^verbatim>\<open>None\<close>. The configured
  addresses and ports are constants of no consequence for the control flow and are left
  out.
\<close>

record SistemaInspeccion =
  perfilometro :: "CognexPerfilometro option"
  cobot_socket :: "socket option"
  perfil_maestro :: "perfil option"
  UMBRAL_TOLERANCIA :: float64

subsection \<open>\<^verbatim>\<open>comparar_perfiles\<close>\<close>

text \<open>
  The one message \<open>comparar_perfiles\<close> logs on each of its paths, with the values it
  puts into the text: the two lengths, or the maximum deviation (and the threshold). The
  text itself, which prints the deviation with two decimals, is not modelled.
\<close>

datatype registro =
    Sin_perfil_maestro
  | Discrepancia_de_tamano nat nat
  | Defecto_detectado float64 float64
  | Pieza_ok float64

text \<open>
  The method with what it logs: the message and the result, which is Python's
  \<^verbatim>\<open>None\<close>, \<^verbatim>\<open>True\<close> (defect) or \<^verbatim>\<open>False\<close> (part is good); or an exception
  raised by numpy.
\<close>

definition comparar_perfiles_registro ::
  "SistemaInspeccion \<Rightarrow> perfil \<Rightarrow> py_error + registro \<times> bool option" where
  "comparar_perfiles_registro self perfil_actual =
     (case perfil_maestro self of
        None \<Rightarrow> Inr (Sin_perfil_maestro, None)
      | Some maestro \<Rightarrow>
          if length maestro \<noteq> length perfil_actual
          then Inr (Discrepancia_de_tamano (length maestro) (length perfil_actual), Some True)
          else
            let perfil_actual_norm = np_sub_escalar perfil_actual (np_mean perfil_actual);
                perfil_maestro_norm = np_sub_escalar maestro (np_mean maestro)
            in (case np_sub perfil_actual_norm perfil_maestro_norm of
                  Inl e \<Rightarrow> Inl e
                | Inr resta \<Rightarrow>
                    (case np_max (np_abs resta) of
                       Inl e \<Rightarrow> Inl e
                     | Inr desviacion_maxima \<Rightarrow>
                         if fgt desviacion_maxima (UMBRAL_TOLERANCIA self)
                         then Inr (Defecto_detectado desviacion_maxima (UMBRAL_TOLERANCIA self),
                                   Some True)
                         else Inr (Pieza_ok desviacion_maxima, Some False))))"

text \<open>What the method returns.\<close>

definition comparar_perfiles :: "SistemaInspeccion \<Rightarrow> perfil \<Rightarrow> py_error + bool option" where
  "comparar_perfiles self perfil_actual =
     (case comparar_perfiles_registro self perfil_actual of
        Inl e \<Rightarrow> Inl e
      | Inr (mensaje, resultado) \<Rightarrow> Inr resultado)"

text \<open>The two verdicts of the specification, as values returned by the comparator.\<close>

abbreviation DEFECTIVE :: "py_error + bool option" where
  "DEFECTIVE \<equiv> Inr (Some True)"

abbreviation GOOD :: "py_error + bool option" where
  "GOOD \<equiv> Inr (Some False)"

subsection \<open>The environment of one pass through the cycle\<close>

text \<open>
  Every operation on a socket takes its outcome from the environment. For one pass
  through the body of the \<^verbatim>\<open>while True\<close> loop the environment fixes the outcome of
  \<^verbatim>\<open>cobot_socket.recv(1024)\<close>, of the exchange with the sensor, of
  \<^verbatim>\<open>cobot_socket.sendall\<close> and of the two connection attempts; each of them is
  consulted at most once in a pass.
\<close>

datatype recv_result =
    RecvDatos       \<comment> \<open>a non-empty byte string\<close>
  | RecvVacio       \<comment> \<open>\<^verbatim>\<open>b''\<close>: the peer closed the connection\<close>
  | RecvTimeout     \<comment> \<open>\<^verbatim>\<open>socket.timeout\<close>\<close>
  | RecvError       \<comment> \<open>any other \<^verbatim>\<open>socket.error\<close>\<close>
  | RecvInterrupt   \<comment> \<open>\<^verbatim>\<open>KeyboardInterrupt\<close> while blocked in \<^verbatim>\<open>recv\<close>\<close>

text \<open>
  The exchange of \<^verbatim>\<open>adquirir_perfil\<close> with the sensor. The request and the loop that
  collects the response are not modelled; the environment gives what they end in: a
  response, given by its first tab-separated token and by the result of
  \<^verbatim>\<open>np.array(partes[1:], dtype=float)\<close> (\<open>None\<close> when that conversion raises), or
  a timeout, or any other exception.
\<close>

datatype respuesta_cognex =
    Partes string "perfil option"
  | RespTimeout
  | RespError

record entorno =
  recv_cobot :: recv_result
  respuesta_sensor :: respuesta_cognex
  sendall_cobot :: bool
  connect_perfilometro :: bool
  connect_cobot :: bool

text \<open>
  What the controller does to the outside world. Apart from the message of the
  comparator, logging is not modelled; the pause of half a second inside the sensor's
  login is part of \<open>Conectar_perfilometro\<close>.
\<close>

datatype evento =
    Sleep nat                       \<comment> \<open>\<^verbatim>\<open>sleep(n)\<close>, seconds\<close>
  | Enviar string bool              \<comment> \<open>\<^verbatim>\<open>cobot_socket.sendall\<close>: the text, and whether it was sent\<close>
  | Conectar_perfilometro bool      \<comment> \<open>a new \<^verbatim>\<open>CognexPerfilometro\<close> tries to connect\<close>
  | Conectar_cobot bool             \<comment> \<open>a new cobot socket tries to connect\<close>
  | Cerrar_perfilometro
  | Cerrar_cobot

subsection \<open>\<^verbatim>\<open>CognexPerfilometro\<close>\<close>

text \<open>\<^verbatim>\<open>__init__\<close> creates the object and calls \<^verbatim>\<open>connect\<close>, which catches \<^verbatim>\<open>socket.error\<close>.\<close>

definition CognexPerfilometro_init :: "entorno \<Rightarrow> CognexPerfilometro \<times> evento list" where
  "CognexPerfilometro_init env =
     (if connect_perfilometro env
      then (\<lparr>is_connected = True\<rparr>, [Conectar_perfilometro True])
      else (\<lparr>is_connected = False\<rparr>, [Conectar_perfilometro False]))"

text \<open>Every failure inside \<^verbatim>\<open>adquirir_perfil\<close> is caught there and turned into \<^verbatim>\<open>None\<close>.\<close>

definition adquirir_perfil :: "entorno \<Rightarrow> CognexPerfilometro \<Rightarrow> perfil option" where
  "adquirir_perfil env self =
     (if \<not> is_connected self then None
      else case respuesta_sensor env of
             Partes estado puntos_perfil \<Rightarrow> if estado = ''1'' then puntos_perfil else None
           | RespTimeout \<Rightarrow> None
           | RespError \<Rightarrow> None)"

text \<open>\<^verbatim>\<open>close\<close>; the socket attribute is set by every call of \<^verbatim>\<open>connect\<close>.\<close>

definition CognexPerfilometro_close :: "CognexPerfilometro \<Rightarrow> CognexPerfilometro \<times> evento list" where
  "CognexPerfilometro_close self = (self\<lparr>is_connected := False\<rparr>, [Cerrar_perfilometro])"

subsection \<open>The methods of \<^verbatim>\<open>SistemaInspeccion\<close>\<close>

text \<open>
  \<^verbatim>\<open>conectar\<close> replaces the sensor object by a new one, and only if that one is
  connected goes on to the cobot. The new cobot socket is stored before it connects.
\<close>

definition conectar :: "entorno \<Rightarrow> SistemaInspeccion \<Rightarrow> bool \<times> SistemaInspeccion \<times> evento list" where
  "conectar env self =
     (case CognexPerfilometro_init env of
        (p, ev) \<Rightarrow>
          if \<not> is_connected p then (False, self\<lparr>perfilometro := Some p\<rparr>, ev)
          else if connect_cobot env
          then (True, self\<lparr>perfilometro := Some p, cobot_socket := Some (Socket True)\<rparr>,
                ev @ [Conectar_cobot True])
          else (False, self\<lparr>perfilometro := Some p, cobot_socket := Some (Socket False)\<rparr>,
                ev @ [Conectar_cobot False]))"

text \<open>
  The class defines no method \<^verbatim>\<open>conectar_cobot\<close>: looking the attribute up raises
  \<^verbatim>\<open>AttributeError\<close>.
\<close>

definition conectar_cobot :: "SistemaInspeccion \<Rightarrow> py_error + SistemaInspeccion" where
  "conectar_cobot self = Inl AttributeError"

definition PIEZA_DEFECTUOSA :: string where
  "PIEZA_DEFECTUOSA = ''PIEZA_DEFECTUOSA'' @ [CHR 0x0A]"

definition PIEZA_BUENA :: string where
  "PIEZA_BUENA = ''PIEZA_BUENA'' @ [CHR 0x0A]"

text \<open>
  \<^verbatim>\<open>enviar_comando_cobot\<close> catches \<^verbatim>\<open>socket.error\<close> and returns normally in either
  case. Without a socket object the attribute access raises \<^verbatim>\<open>AttributeError\<close>, which
  it does not catch.
\<close>

definition enviar_comando_cobot ::
  "entorno \<Rightarrow> SistemaInspeccion \<Rightarrow> string \<Rightarrow> py_error option \<times> evento list" where
  "enviar_comando_cobot env self comando =
     (case cobot_socket self of
        None \<Rightarrow> (Some AttributeError, [])
      | Some s \<Rightarrow>
          if sendall_cobot env then (None, [Enviar comando True])
          else (None, [Enviar comando False]))"

text \<open>The truth value Python gives to \<^verbatim>\<open>None\<close>, \<^verbatim>\<open>True\<close> and \<^verbatim>\<open>False\<close>.\<close>

definition py_bool :: "bool option \<Rightarrow> bool" where
  "py_bool v = (case v of None \<Rightarrow> False | Some b \<Rightarrow> b)"

text \<open>
  The body of the \<^verbatim>\<open>try\<close> in \<^verbatim>\<open>ejecutar_ciclo_inspeccion\<close>: the exception it raises,
  if any, the object afterwards and the events.
\<close>

definition cuerpo_ciclo ::
  "entorno \<Rightarrow> SistemaInspeccion \<Rightarrow> py_error option \<times> SistemaInspeccion \<times> evento list" where
  "cuerpo_ciclo env self =
     (case cobot_socket self of
        None \<Rightarrow> (Some AttributeError, self, [])
      | Some s \<Rightarrow>
          (case recv_cobot env of
             RecvInterrupt \<Rightarrow> (Some KeyboardInterrupt, self, [])
           | RecvTimeout \<Rightarrow> (Some SocketTimeout, self, [])
           | RecvError \<Rightarrow> (Some SocketError, self, [])
           | RecvVacio \<Rightarrow>
               (case conectar_cobot self of
                  Inl e \<Rightarrow> (Some e, self, [Sleep 5])
                | Inr self' \<Rightarrow> (None, self', [Sleep 5]))
           | RecvDatos \<Rightarrow>
               (case perfilometro self of
                  None \<Rightarrow> (Some AttributeError, self, [])
                | Some p \<Rightarrow>
                    (case adquirir_perfil env p of
                       None \<Rightarrow> (None, self, [])
                     | Some perfil_actual \<Rightarrow>
                         (case comparar_perfiles self perfil_actual of
                            Inl e \<Rightarrow> (Some e, self, [])
                          | Inr defecto \<Rightarrow>
                              (case enviar_comando_cobot env self
                                      (if py_bool defecto then PIEZA_DEFECTUOSA else PIEZA_BUENA) of
                                 (r, ev) \<Rightarrow> (r, self, ev)))))))"

text \<open>
  One pass through the loop, with its two handlers: \<^verbatim>\<open>socket.timeout\<close> is ignored,
  any other \<^verbatim>\<open>Exception\<close> leads to \<^verbatim>\<open>sleep(10)\<close> and \<^verbatim>\<open>self.conectar()\<close>;
  \<^verbatim>\<open>KeyboardInterrupt\<close> is not an \<^verbatim>\<open>Exception\<close> and leaves the loop.
\<close>

definition iteracion ::
  "entorno \<Rightarrow> SistemaInspeccion \<Rightarrow> py_error option \<times> SistemaInspeccion \<times> evento list" where
  "iteracion env self =
     (case cuerpo_ciclo env self of
        (None, self', evs) \<Rightarrow> (None, self', evs)
      | (Some e, self', evs) \<Rightarrow>
          if e = SocketTimeout then (None, self', evs)
          else if e = KeyboardInterrupt then (Some e, self', evs)
          else (case conectar env self' of
                  (ok, self'', evs') \<Rightarrow> (None, self'', evs @ [Sleep 10] @ evs')))"

text \<open>
  \<^verbatim>\<open>ejecutar_ciclo_inspeccion\<close>. The loop has no exit of its own. It is run against the
  outcomes of finitely many passes; the result \<open>None\<close> says that after them the loop is
  still running, \<open>Some e\<close> that the exception \<open>e\<close> left it.
\<close>

fun ejecutar_ciclo_inspeccion ::
  "entorno list \<Rightarrow> SistemaInspeccion \<Rightarrow> py_error option \<times> SistemaInspeccion \<times> evento list" where
  "ejecutar_ciclo_inspeccion [] self = (None, self, [])"
| "ejecutar_ciclo_inspeccion (env # envs) self =
     (case iteracion env self of
        (Some e, self', evs) \<Rightarrow> (Some e, self', evs)
      | (None, self', evs) \<Rightarrow>
          (case ejecutar_ciclo_inspeccion envs self' of
             (r, self'', evs') \<Rightarrow> (r, self'', evs @ evs')))"

definition desconectar_todo :: "SistemaInspeccion \<Rightarrow> SistemaInspeccion \<times> evento list" where
  "desconectar_todo self =
     (case (case perfilometro self of
              None \<Rightarrow> (self, [])
            | Some p \<Rightarrow>
                (case CognexPerfilometro_close p of
                   (p', ev) \<Rightarrow> (self\<lparr>perfilometro := Some p'\<rparr>, ev))) of
        (self', ev1) \<Rightarrow>
          (case cobot_socket self' of
             None \<Rightarrow> (self', ev1)
           | Some s \<Rightarrow> (self', ev1 @ [Cerrar_cobot])))"

subsection \<open>Start of the program\<close>

text \<open>
  The outcome of \<^verbatim>\<open>np.loadtxt(path, delimiter=',')\<close>: the array, an \<^verbatim>\<open>IOError\<close>
  (the file is missing or unreadable) or a \<^verbatim>\<open>ValueError\<close> (a field is not a number).
\<close>

datatype loadtxt_result =
    Cargado perfil
  | LoadIOError
  | LoadValueError

text \<open>\<^verbatim>\<open>cargar_perfil_maestro\<close> catches \<^verbatim>\<open>IOError\<close> only.\<close>

definition cargar_perfil_maestro :: "loadtxt_result \<Rightarrow> py_error + perfil option" where
  "cargar_perfil_maestro archivo =
     (case archivo of
        Cargado perfil \<Rightarrow> Inr (Some perfil)
      | LoadIOError \<Rightarrow> Inr None
      | LoadValueError \<Rightarrow> Inl ValueError)"

text \<open>\<^verbatim>\<open>CONFIG["umbral_tolerancia_mm"]\<close> is 0.5, which is a double.\<close>

definition CONFIG_umbral_tolerancia_mm :: float64 where
  "CONFIG_umbral_tolerancia_mm = Finite (1 / 2)"

definition SistemaInspeccion_init :: "loadtxt_result \<Rightarrow> py_error + SistemaInspeccion" where
  "SistemaInspeccion_init archivo =
     (case cargar_perfil_maestro archivo of
        Inl e \<Rightarrow> Inl e
      | Inr perfil \<Rightarrow>
          Inr \<lparr>perfilometro = None, cobot_socket = None, perfil_maestro = perfil,
               UMBRAL_TOLERANCIA = CONFIG_umbral_tolerancia_mm\<rparr>)"

text \<open>
  How the process ends: the script runs to its end, \<^verbatim>\<open>exit(status)\<close> is called, an
  exception is not caught, or (after the given passes) the loop is still running.
\<close>

datatype terminacion =
    FinNormal
  | SystemExit "nat option"
  | NoCapturada py_error
  | EnEjecucion

text \<open>
  The block under \<^verbatim>\<open>if __name__ == "__main__"\<close>: \<open>inicio\<close> gives the outcome of the
  first connection attempts, \<open>envs\<close> the passes through the loop.
\<close>

definition programa :: "loadtxt_result \<Rightarrow> entorno \<Rightarrow> entorno list \<Rightarrow> terminacion \<times> evento list" where
  "programa archivo inicio envs =
     (case SistemaInspeccion_init archivo of
        Inl e \<Rightarrow> (NoCapturada e, [])
      | Inr sistema \<Rightarrow>
          if perfil_maestro sistema = None then (SystemExit None, [])
          else
            (case conectar inicio sistema of
               (ok, sistema1, ev1) \<Rightarrow>
                 if ok then
                   (case ejecutar_ciclo_inspeccion envs sistema1 of
                      (None, sistema2, ev2) \<Rightarrow> (EnEjecucion, ev1 @ ev2)
                    | (Some e, sistema2, ev2) \<Rightarrow>
                        (case desconectar_todo sistema2 of
                           (sistema3, ev3) \<Rightarrow>
                             (if e = KeyboardInterrupt then FinNormal else NoCapturada e,
                              ev1 @ ev2 @ ev3)))
                 else (FinNormal, ev1)))"

text \<open>
  The exit status Python gives the process: 0 at the end of the script and for
  \<^verbatim>\<open>exit()\<close> without a status, the status given to \<^verbatim>\<open>exit\<close> otherwise, 1 after an
  exception nobody caught (130 for a \<^verbatim>\<open>KeyboardInterrupt\<close>). A running process has
  none.
\<close>

definition codigo_salida :: "terminacion \<Rightarrow> nat option" where
  "codigo_salida t =
     (case t of
        FinNormal \<Rightarrow> Some 0
      | SystemExit None \<Rightarrow> Some 0
      | SystemExit (Some n) \<Rightarrow> Some n
      | NoCapturada e \<Rightarrow> Some (if e = KeyboardInterrupt then 130 else 1)
      | EnEjecucion \<Rightarrow> None)"

text \<open>Whether a trace holds an attempt to connect a link.\<close>

fun es_conexion_perfilometro :: "evento \<Rightarrow> bool" where
  "es_conexion_perfilometro (Conectar_perfilometro ok) = True"
| "es_conexion_perfilometro ev = False"

fun es_conexion_cobot :: "evento \<Rightarrow> bool" where
  "es_conexion_cobot (Conectar_cobot ok) = True"
| "es_conexion_cobot ev = False"

fun es_envio :: "evento \<Rightarrow> bool" where
  "es_envio (Enviar comando ok) = True"
| "es_envio ev = False"

text \<open>Both link objects exist; this holds from the first successful \<^verbatim>\<open>conectar\<close> on.\<close>

definition enlaces_presentes :: "SistemaInspeccion \<Rightarrow> bool" where
  "enlaces_presentes self = (perfilometro self \<noteq> None \<and> cobot_socket self \<noteq> None)"

subsection \<open>A running system and one pass, for the examples\<close>

text \<open>
  Both links connected, a master profile of three samples, the tolerance of \<^verbatim>\<open>CONFIG\<close>.
\<close>

definition sistema_conectado :: SistemaInspeccion where
  "sistema_conectado =
     \<lparr>perfilometro = Some \<lparr>is_connected = True\<rparr>, cobot_socket = Some (Socket True),
      perfil_maestro = Some (map Finite [0, 0, 0]), UMBRAL_TOLERANCIA = Finite (1 / 2)\<rparr>"

text \<open>
  The cobot signals a part, the sensor answers with status 1 and the profile
  \<open>[0, 0, 10]\<close>, sending works and both peers accept connections.
\<close>

definition entorno_normal :: entorno where
  "entorno_normal =
     \<lparr>recv_cobot = RecvDatos, respuesta_sensor = Partes ''1'' (Some (map Finite [0, 0, 10])),
      sendall_cobot = True, connect_perfilometro = True, connect_cobot = True\<rparr>"

section \<open>The comparators of the two earlier scripts\<close>

text \<open>
  \<^verbatim>\<open>main.py\<close>: a module-level function of both profiles, with the module constant
  \<^verbatim>\<open>UMBRAL_TOLERANCIA = 0.5\<close>. It compares the raw samples.
\<close>

definition UMBRAL_TOLERANCIA_main :: float64 where
  "UMBRAL_TOLERANCIA_main = Finite (1 / 2)"

definition comparar_perfiles_main :: "perfil \<Rightarrow> perfil \<Rightarrow> py_error + bool" where
  "comparar_perfiles_main perfil_actual maestro =
     (case np_sub perfil_actual maestro of
        Inl e \<Rightarrow> Inl e
      | Inr resta \<Rightarrow>
          (case np_max (np_abs resta) of
             Inl e \<Rightarrow> Inl e
           | Inr maximo \<Rightarrow> if fgt maximo UMBRAL_TOLERANCIA_main then Inr True else Inr False))"

text \<open>
  \<^verbatim>\<open>main2.py\<close>: the method of \<^verbatim>\<open>main.3.py\<close> without the comparison of the lengths.
\<close>

definition comparar_perfiles_main2 ::
  "SistemaInspeccion \<Rightarrow> perfil \<Rightarrow> py_error + bool option" where
  "comparar_perfiles_main2 self perfil_actual =
     (case perfil_maestro self of
        None \<Rightarrow> Inr None
      | Some maestro \<Rightarrow>
          let perfil_actual_norm = np_sub_escalar perfil_actual (np_mean perfil_actual);
              perfil_maestro_norm = np_sub_escalar maestro (np_mean maestro)
          in (case np_sub perfil_actual_norm perfil_maestro_norm of
                Inl e \<Rightarrow> Inl e
              | Inr resta \<Rightarrow>
                  (case np_max (np_abs resta) of
                     Inl e \<Rightarrow> Inl e
                   | Inr desviacion_maxima \<Rightarrow>
                       if fgt desviacion_maxima (UMBRAL_TOLERANCIA self)
                       then Inr (Some True)
                       else Inr (Some False))))"

section \<open>The comparator in the words of the specification\<close>

text \<open>
  Section 4.4 of the specification, over the real numbers: centre both sequences by
  subtracting each sequence's own mean, take the maximum absolute pointwise difference of
  the centred sequences.
\<close>

definition spec_centered :: "real list \<Rightarrow> real list" where
  "spec_centered xs = map (\<lambda>x. x - sum_list xs / real (length xs)) xs"

definition spec_max_deviation :: "real list \<Rightarrow> real list \<Rightarrow> real" where
  "spec_max_deviation current master =
     Max ((\<lambda>i. \<bar>spec_centered current ! i - spec_centered master ! i\<bar>) ` {..<length current})"

text \<open>
  The same in the arithmetic of the program: the centred sequence as \<^verbatim>\<open>float64\<close>
  computes it, and the absolute pointwise differences of two centred sequences.
\<close>

definition centrado :: "perfil \<Rightarrow> perfil" where
  "centrado a = map (\<lambda>x. fsub x (np_mean a)) a"

definition desviaciones :: "perfil \<Rightarrow> perfil \<Rightarrow> perfil" where
  "desviaciones current master =
     map2 (\<lambda>x y. fabs (fsub x y)) (centrado current) (centrado master)"


section \<open>Rounding\<close>

subsection \<open>The exponent and the rounding of a given number\<close>

lemma exponente_bounds:
  assumes "x \<noteq> 0"
  shows "2 powi exponente x \<le> \<bar>x\<bar> \<and> \<bar>x\<bar> < 2 powi (exponente x + 1)"
proof (cases "\<bar>x\<bar> \<ge> 1")
  case True
  define m where "m = \<lfloor>\<bar>x\<bar>\<rfloor>"
  have m: "m > 0" using True by (simp add: m_def)
  then have b1: "bitlen m \<ge> 1" by (auto simp: bitlen_alt_def)
  from bitlen_bounds [OF m]
  have lo: "(2::int) ^ nat (bitlen m - 1) \<le> m" and hi: "m < 2 ^ nat (bitlen m)" by auto
  have "real_of_int ((2::int) ^ nat (bitlen m - 1)) \<le> real_of_int m"
    using lo by (simp only: of_int_le_iff)
  also have "real_of_int m \<le> \<bar>x\<bar>" by (simp add: m_def)
  finally have l: "2 powi (bitlen m - 1) \<le> \<bar>x\<bar>"
    using b1 by (simp add: power_int_def)
  have "m + 1 \<le> 2 ^ nat (bitlen m)" using hi by simp
  then have "real_of_int (m + 1) \<le> real_of_int (2 ^ nat (bitlen m))"
    by (simp only: of_int_le_iff)
  moreover have "\<bar>x\<bar> < real_of_int (m + 1)" by (simp add: m_def)
  ultimately have h: "\<bar>x\<bar> < 2 powi (bitlen m)"
    using b1 by (simp add: power_int_def)
  show ?thesis using True l h by (simp add: exponente_def m_def)
next
  case False
  define y where "y = 1 / \<bar>x\<bar>"
  have a: "0 < \<bar>x\<bar>" "\<bar>x\<bar> < 1" using assms False by auto
  then have y: "y > 1" by (simp add: y_def)
  define m where "m = \<lceil>y\<rceil> - 1"
  have m: "m > 0" using y by (simp add: m_def)
  define k where "k = bitlen m"
  have k1: "k \<ge> 1" using m by (auto simp: bitlen_alt_def k_def)
  from bitlen_bounds [OF m]
  have lo: "(2::int) ^ nat (k - 1) \<le> m" and hi: "m < 2 ^ nat k" by (auto simp: k_def)
  have my: "real_of_int m < y" unfolding m_def by linarith
  have ym: "y \<le> real_of_int (m + 1)" by (simp add: m_def)
  have "real_of_int (m + 1) \<le> real_of_int (2 ^ nat k)"
    using hi by (simp only: of_int_le_iff)
  then have "real_of_int (m + 1) \<le> (2::real) ^ nat k" by simp
  with ym have yk: "y \<le> 2 ^ nat k" by linarith
  have "real_of_int (2 ^ nat (k - 1)) \<le> real_of_int m"
    using lo by (simp only: of_int_le_iff)
  then have "(2::real) ^ nat (k - 1) \<le> real_of_int m" by simp
  with my have ky: "2 ^ nat (k - 1) < y" by linarith
  have x: "\<bar>x\<bar> = 1 / y" using a by (simp add: y_def)
  have l: "2 powi (- k) \<le> \<bar>x\<bar>"
  proof -
    have "1 / 2 ^ nat k \<le> 1 / y" using yk y by (intro divide_left_mono) auto
    then show ?thesis using k1 x by (simp add: power_int_def field_simps)
  qed
  have h: "\<bar>x\<bar> < 2 powi (- k + 1)"
  proof -
    have "1 / y < 1 / 2 ^ nat (k - 1)" using ky y by (intro divide_strict_left_mono) auto
    moreover have "(2::real) powi (- k + 1) = 1 / 2 ^ nat (k - 1)"
    proof (cases "k = 1")
      case True
      then show ?thesis by simp
    next
      case False
      with k1 have "- k + 1 < 0" "nat (- (- k + 1)) = nat (k - 1)" by simp_all
      then show ?thesis by (simp add: power_int_def power_one_over inverse_eq_divide)
    qed
    ultimately show ?thesis using x by simp
  qed
  show ?thesis using False l h by (simp add: exponente_def y_def m_def k_def)
qed

lemma exponente_eqI:
  assumes "2 powi e \<le> \<bar>x\<bar>" "\<bar>x\<bar> < 2 powi (e + 1)"
  shows "exponente x = e"
proof -
  have "x \<noteq> 0"
  proof
    assume "x = 0"
    then have "(2::real) powi e \<le> 0" using assms(1) by simp
    moreover have "(0::real) < 2 powi e" by simp
    ultimately show False by linarith
  qed
  from exponente_bounds [OF this] have
    b: "2 powi exponente x \<le> \<bar>x\<bar>" "\<bar>x\<bar> < 2 powi (exponente x + 1)" by auto
  have "(2::real) powi e < 2 powi (exponente x + 1)" using assms(1) b(2) by linarith
  then have 1: "e < exponente x + 1"
    by (metis linorder_not_less one_less_numeral_iff power_int_increasing less_imp_le
        semiring_norm(76) leD)
  have "(2::real) powi exponente x < 2 powi (e + 1)" using assms(2) b(1) by linarith
  then have 2: "exponente x < e + 1"
    by (metis linorder_not_less one_less_numeral_iff power_int_increasing less_imp_le
        semiring_norm(76) leD)
  from 1 2 show ?thesis by simp
qed

lemma round_half_even_eqI:
  assumes "\<bar>q - of_int n\<bar> < 1 / 2 \<or> (\<bar>q - of_int n\<bar> = 1 / 2 \<and> even n)"
  shows "round_half_even q = n"
proof -
  consider "\<bar>q - of_int n\<bar> < 1 / 2" "q \<ge> of_int n"
    | "\<bar>q - of_int n\<bar> < 1 / 2" "q < of_int n"
    | "q = of_int n + 1 / 2" "even n" | "q = of_int n - 1 / 2" "even n"
    using assms by (auto simp: abs_if split: if_splits) 
  then show ?thesis
  proof cases
    case 1
    then have "\<lfloor>q\<rfloor> = n" by (intro floor_unique) (auto simp: abs_if split: if_splits)
    with 1 show ?thesis by (auto simp: round_half_even_def Let_def abs_if split: if_splits)
  next
    case 2
    then have "\<lfloor>q\<rfloor> = n - 1" by (intro floor_unique) (auto simp: abs_if split: if_splits)
    with 2 show ?thesis by (auto simp: round_half_even_def Let_def abs_if split: if_splits)
  next
    case 3
    then have "\<lfloor>q\<rfloor> = n" by (intro floor_unique) auto
    with 3 show ?thesis by (auto simp: round_half_even_def Let_def)
  next
    case 4
    then have "\<lfloor>q\<rfloor> = n - 1" by (intro floor_unique) auto
    with 4 show ?thesis by (auto simp: round_half_even_def Let_def)
  qed
qed

text \<open>
  How to establish the rounding of a number: give the exponent \<open>e\<close> and the multiple
  \<open>n\<close> of \<open>2 ^ (e - 52)\<close> nearest to it.
\<close>

lemma redondear_eval:
  assumes "2 powi e \<le> \<bar>x\<bar>" "\<bar>x\<bar> < 2 powi (e + 1)" "- 1022 \<le> e"
    and "\<bar>x / 2 powi (e - 52) - of_int n\<bar> < 1 / 2
         \<or> (\<bar>x / 2 powi (e - 52) - of_int n\<bar> = 1 / 2 \<and> even n)"
    and "\<bar>of_int n * 2 powi (e - 52)\<bar> < (2::real) powi 1024"
  shows "redondear x = Finite (of_int n * 2 powi (e - 52))"
proof -
  have "x \<noteq> 0"
  proof
    assume "x = 0"
    then have "(2::real) powi e \<le> 0" using assms(1) by simp
    moreover have "(0::real) < 2 powi e" by simp
    ultimately show False by linarith
  qed
  moreover have "exponente x = e" using assms(1,2) by (rule exponente_eqI)
  moreover have "round_half_even (x / 2 powi (e - 52)) = n"
    using assms(4) by (rule round_half_even_eqI)
  ultimately show ?thesis
    using assms(3,5) by (simp add: redondear_def Let_def max_def)
qed


text \<open>The same below the smallest exponent, where the spacing is \<open>2 ^ -1074\<close>.\<close>

lemma redondear_eval_subnormal:
  assumes "x \<noteq> 0" "\<bar>x\<bar> < 2 powi (- 1022)"
    and "\<bar>x / 2 powi (- 1074) - of_int n\<bar> < 1 / 2
         \<or> (\<bar>x / 2 powi (- 1074) - of_int n\<bar> = 1 / 2 \<and> even n)"
  shows "redondear x = Finite (of_int n * 2 powi (- 1074))"
proof -
  have "(2::real) powi exponente x < 2 powi (- 1022)"
    using exponente_bounds [OF assms(1)] assms(2) by linarith
  then have e: "exponente x < - 1022"
    by (metis linorder_not_less one_less_numeral_iff power_int_increasing less_imp_le
        semiring_norm(76) leD)
  have r: "round_half_even (x / 2 powi (- 1074)) = n"
    using assms(3) by (rule round_half_even_eqI)
  have "\<bar>real_of_int n\<bar> \<le> \<bar>x / 2 powi (- 1074)\<bar> + 1 / 2"
    using assms(3) by (auto simp: abs_if split: if_splits)
  also have "\<bar>x / 2 powi (- 1074)\<bar> = \<bar>x\<bar> * 2 ^ 1074"
    by (simp add: power_int_def abs_mult field_simps)
  also have "\<bar>x\<bar> * 2 ^ 1074 < 2 powi (- 1022) * 2 ^ 1074"
    using assms(2) by (intro mult_strict_right_mono) auto
  also have "(2::real) powi (- 1022) * 2 ^ 1074 = 2 ^ 52"
    by (simp add: power_int_def field_simps)
  finally have n: "\<bar>real_of_int n\<bar> < 2 ^ 52 + 1 / 2" by simp
  have "\<bar>real_of_int n * 2 powi (- 1074)\<bar> = \<bar>real_of_int n\<bar> * 2 powi (- 1074)"
    by (simp add: abs_mult)
  also have "\<dots> < (2 ^ 52 + 1 / 2) * 2 powi (- 1074)"
    using n by (intro mult_strict_right_mono) auto
  also have "\<dots> < 2 powi 1024"
    by (simp add: power_int_def field_simps)
  finally have b: "\<not> (2::real) powi 1024 \<le> \<bar>real_of_int n * 2 powi (- 1074)\<bar>" by simp
  have m: "max (exponente x) (- 1022) - 52 = - 1074" using e by simp
  show ?thesis
    using assms(1) r b unfolding redondear_def Let_def m by simp
qed

text \<open>
  The rounding at the ends of the range: half a spacing below \<open>2 ^ 1024\<close> overflows, just
  below that gives the largest double; half the smallest subnormal rounds to zero, one and
  a half times the smallest subnormal to the even neighbour.
\<close>

lemma redondear_overflow: "redondear (2 ^ 1024 - 2 ^ 970) = PInf"
proof -
  have e: "exponente (2 ^ 1024 - 2 ^ 970) = 1023"
    by (rule exponente_eqI) (simp_all add: power_int_def)
  have r: "round_half_even ((2 ^ 1024 - 2 ^ 970) / 2 powi (1023 - 52)) = 2 ^ 53"
    by (rule round_half_even_eqI) (simp add: power_int_def)
  show ?thesis
    using e r by (simp add: redondear_def Let_def power_int_def)
qed

lemma redondear_largest: "redondear (2 ^ 1024 - 2 ^ 970 - 1) = Finite (2 ^ 1024 - 2 ^ 971)"
  using redondear_eval [where x = "2 ^ 1024 - 2 ^ 970 - 1" and e = 1023 and n = "2 ^ 53 - 1"]
  by (simp add: power_int_def)

lemma redondear_underflow:
  "redondear (1 / 2 ^ 1075) = Finite 0 \<and> redondear (3 / 2 ^ 1075) = Finite (1 / 2 ^ 1073)"
  using redondear_eval_subnormal [where x = "1 / 2 ^ 1075" and n = 0]
    redondear_eval_subnormal [where x = "3 / 2 ^ 1075" and n = 2]
  by (simp add: power_int_def power_divide)

subsection \<open>The roundings that occur in the examples\<close>

lemma redondear_zero: "redondear 0 = Finite 0"
  by (simp add: redondear_def)

lemma redondear_v0: "redondear (- (7505999378950827 / 2251799813685248)) = Finite (- (7505999378950827 / 2251799813685248))"
  using redondear_eval [where x = "- (7505999378950827 / 2251799813685248)" and e = "1" and n = "- 7505999378950827"]
  by (simp add: power_int_def power_divide)

lemma redondear_v1: "redondear (- 1) = Finite (- 1)"
  using redondear_eval [where x = "- 1" and e = "0" and n = "- 4503599627370496"]
  by (simp add: power_int_def power_divide)

lemma redondear_v2: "redondear (- (3002399751580331 / 4503599627370496)) = Finite (- (3002399751580331 / 4503599627370496))"
  using redondear_eval [where x = "- (3002399751580331 / 4503599627370496)" and e = "- 1" and n = "- 6004799503160662"]
  by (simp add: power_int_def power_divide)

lemma redondear_v3: "redondear (- (6004799503160661 / 9007199254740992)) = Finite (- (6004799503160661 / 9007199254740992))"
  using redondear_eval [where x = "- (6004799503160661 / 9007199254740992)" and e = "- 1" and n = "- 6004799503160661"]
  by (simp add: power_int_def power_divide)

lemma redondear_v4: "redondear (- (1 / 2)) = Finite (- (1 / 2))"
  using redondear_eval [where x = "- (1 / 2)" and e = "- 1" and n = "- 4503599627370496"]
  by (simp add: power_int_def power_divide)

lemma redondear_v5: "redondear (- (6004799503160661 / 18014398509481984)) = Finite (- (6004799503160661 / 18014398509481984))"
  using redondear_eval [where x = "- (6004799503160661 / 18014398509481984)" and e = "- 2" and n = "- 6004799503160661"]
  by (simp add: power_int_def power_divide)

lemma redondear_v6: "redondear (- (1501199875790165 / 4503599627370496)) = Finite (- (1501199875790165 / 4503599627370496))"
  using redondear_eval [where x = "- (1501199875790165 / 4503599627370496)" and e = "- 2" and n = "- 6004799503160660"]
  by (simp add: power_int_def power_divide)

lemma redondear_v7: "redondear (- (3002399751580331 / 18014398509481984)) = Finite (- (3002399751580331 / 18014398509481984))"
  using redondear_eval [where x = "- (3002399751580331 / 18014398509481984)" and e = "- 3" and n = "- 6004799503160662"]
  by (simp add: power_int_def power_divide)

lemma redondear_v8: "redondear (- (12009599006321323 / 72057594037927936)) = Finite (- (3002399751580331 / 18014398509481984))"
  using redondear_eval [where x = "- (12009599006321323 / 72057594037927936)" and e = "- 3" and n = "- 6004799503160662"]
  by (simp add: power_int_def power_divide)

lemma redondear_v9: "redondear (- (7205759403792795 / 72057594037927936)) = Finite (- (7205759403792795 / 72057594037927936))"
  using redondear_eval [where x = "- (7205759403792795 / 72057594037927936)" and e = "- 4" and n = "- 7205759403792795"]
  by (simp add: power_int_def power_divide)

lemma redondear_v10: "redondear (- (1 / 10)) = Finite (- (3602879701896397 / 36028797018963968))"
  using redondear_eval [where x = "- (1 / 10)" and e = "- 4" and n = "- 7205759403792794"]
  by (simp add: power_int_def power_divide)

lemma redondear_v11: "redondear (- (1 / 72057594037927936)) = Finite (- (1 / 72057594037927936))"
  using redondear_eval [where x = "- (1 / 72057594037927936)" and e = "- 56" and n = "- 4503599627370496"]
  by (simp add: power_int_def power_divide)

lemma redondear_v12: "redondear (1 / 18014398509481984) = Finite (1 / 18014398509481984)"
  using redondear_eval [where x = "1 / 18014398509481984" and e = "- 54" and n = "4503599627370496"]
  by (simp add: power_int_def power_divide)

lemma redondear_v13: "redondear (2401919801264265 / 72057594037927936) = Finite (2401919801264265 / 72057594037927936)"
  using redondear_eval [where x = "2401919801264265 / 72057594037927936" and e = "- 5" and n = "4803839602528530"]
  by (simp add: power_int_def power_divide)

lemma redondear_v14: "redondear (3602879701896397 / 54043195528445952) = Finite (4803839602528529 / 72057594037927936)"
  using redondear_eval [where x = "3602879701896397 / 54043195528445952" and e = "- 4" and n = "4803839602528529"]
  by (simp add: power_int_def power_divide)

lemma redondear_v15: "redondear (7205759403792793 / 72057594037927936) = Finite (7205759403792793 / 72057594037927936)"
  using redondear_eval [where x = "7205759403792793 / 72057594037927936" and e = "- 4" and n = "7205759403792793"]
  by (simp add: power_int_def power_divide)

lemma redondear_v16: "redondear (1 / 10) = Finite (3602879701896397 / 36028797018963968)"
  using redondear_eval [where x = "1 / 10" and e = "- 4" and n = "7205759403792794"]
  by (simp add: power_int_def power_divide)

lemma redondear_v17: "redondear (3602879701896397 / 36028797018963968) = Finite (3602879701896397 / 36028797018963968)"
  using redondear_eval [where x = "3602879701896397 / 36028797018963968" and e = "- 4" and n = "7205759403792794"]
  by (simp add: power_int_def power_divide)

lemma redondear_v18: "redondear (1351079888211149 / 13510798882111488) = Finite (7205759403792795 / 72057594037927936)"
  using redondear_eval [where x = "1351079888211149 / 13510798882111488" and e = "- 4" and n = "7205759403792795"]
  by (simp add: power_int_def power_divide)

lemma redondear_v19: "redondear (9607679205057059 / 72057594037927936) = Finite (2401919801264265 / 18014398509481984)"
  using redondear_eval [where x = "9607679205057059 / 72057594037927936" and e = "- 3" and n = "4803839602528530"]
  by (simp add: power_int_def power_divide)

lemma redondear_v20: "redondear (2401919801264265 / 18014398509481984) = Finite (2401919801264265 / 18014398509481984)"
  using redondear_eval [where x = "2401919801264265 / 18014398509481984" and e = "- 3" and n = "4803839602528530"]
  by (simp add: power_int_def power_divide)

lemma redondear_v21: "redondear (1 / 5) = Finite (3602879701896397 / 18014398509481984)"
  using redondear_eval [where x = "1 / 5" and e = "- 3" and n = "7205759403792794"]
  by (simp add: power_int_def power_divide)

lemma redondear_v22: "redondear (3602879701896397 / 18014398509481984) = Finite (3602879701896397 / 18014398509481984)"
  using redondear_eval [where x = "3602879701896397 / 18014398509481984" and e = "- 3" and n = "7205759403792794"]
  by (simp add: power_int_def power_divide)

lemma redondear_v23: "redondear (10808639105689191 / 36028797018963968) = Finite (1351079888211149 / 4503599627370496)"
  using redondear_eval [where x = "10808639105689191 / 36028797018963968" and e = "- 2" and n = "5404319552844596"]
  by (simp add: power_int_def power_divide)

lemma redondear_v24: "redondear (1351079888211149 / 4503599627370496) = Finite (1351079888211149 / 4503599627370496)"
  using redondear_eval [where x = "1351079888211149 / 4503599627370496" and e = "- 2" and n = "5404319552844596"]
  by (simp add: power_int_def power_divide)

lemma redondear_v25: "redondear (1 / 3) = Finite (6004799503160661 / 18014398509481984)"
  using redondear_eval [where x = "1 / 3" and e = "- 2" and n = "6004799503160661"]
  by (simp add: power_int_def power_divide)

lemma redondear_v26: "redondear (1 / 2) = Finite (1 / 2)"
  using redondear_eval [where x = "1 / 2" and e = "- 1" and n = "4503599627370496"]
  by (simp add: power_int_def power_divide)

lemma redondear_v27: "redondear (2 / 3) = Finite (6004799503160661 / 9007199254740992)"
  using redondear_eval [where x = "2 / 3" and e = "- 1" and n = "6004799503160661"]
  by (simp add: power_int_def power_divide)

lemma redondear_v28: "redondear (12009599006321323 / 18014398509481984) = Finite (3002399751580331 / 4503599627370496)"
  using redondear_eval [where x = "12009599006321323 / 18014398509481984" and e = "- 1" and n = "6004799503160662"]
  by (simp add: power_int_def power_divide)

lemma redondear_v29: "redondear (3002399751580331 / 4503599627370496) = Finite (3002399751580331 / 4503599627370496)"
  using redondear_eval [where x = "3002399751580331 / 4503599627370496" and e = "- 1" and n = "6004799503160662"]
  by (simp add: power_int_def power_divide)

lemma redondear_v30: "redondear (1) = Finite (1)"
  using redondear_eval [where x = "1" and e = "0" and n = "4503599627370496"]
  by (simp add: power_int_def power_divide)

lemma redondear_v31: "redondear (6004799503160661 / 4503599627370496) = Finite (6004799503160661 / 4503599627370496)"
  using redondear_eval [where x = "6004799503160661 / 4503599627370496" and e = "0" and n = "6004799503160661"]
  by (simp add: power_int_def power_divide)

lemma redondear_v32: "redondear (4 / 3) = Finite (6004799503160661 / 4503599627370496)"
  using redondear_eval [where x = "4 / 3" and e = "0" and n = "6004799503160661"]
  by (simp add: power_int_def power_divide)

lemma redondear_v33: "redondear (12009599006321323 / 9007199254740992) = Finite (3002399751580331 / 2251799813685248)"
  using redondear_eval [where x = "12009599006321323 / 9007199254740992" and e = "0" and n = "6004799503160662"]
  by (simp add: power_int_def power_divide)

lemma redondear_v34: "redondear (3002399751580331 / 2251799813685248) = Finite (3002399751580331 / 2251799813685248)"
  using redondear_eval [where x = "3002399751580331 / 2251799813685248" and e = "0" and n = "6004799503160662"]
  by (simp add: power_int_def power_divide)

lemma redondear_v35: "redondear (3 / 2) = Finite (3 / 2)"
  using redondear_eval [where x = "3 / 2" and e = "0" and n = "6755399441055744"]
  by (simp add: power_int_def power_divide)

lemma redondear_v36: "redondear (5 / 3) = Finite (7505999378950827 / 4503599627370496)"
  using redondear_eval [where x = "5 / 3" and e = "0" and n = "7505999378950827"]
  by (simp add: power_int_def power_divide)

lemma redondear_v37: "redondear (2) = Finite (2)"
  using redondear_eval [where x = "2" and e = "1" and n = "4503599627370496"]
  by (simp add: power_int_def power_divide)

lemma redondear_v38: "redondear (3) = Finite (3)"
  using redondear_eval [where x = "3" and e = "1" and n = "6755399441055744"]
  by (simp add: power_int_def power_divide)

lemma redondear_v39: "redondear (10 / 3) = Finite (7505999378950827 / 2251799813685248)"
  using redondear_eval [where x = "10 / 3" and e = "1" and n = "7505999378950827"]
  by (simp add: power_int_def power_divide)

lemma redondear_v40: "redondear (4) = Finite (4)"
  using redondear_eval [where x = "4" and e = "2" and n = "4503599627370496"]
  by (simp add: power_int_def power_divide)

lemma redondear_v41: "redondear (5) = Finite (5)"
  using redondear_eval [where x = "5" and e = "2" and n = "5629499534213120"]
  by (simp add: power_int_def power_divide)

lemma redondear_v42: "redondear (6) = Finite (6)"
  using redondear_eval [where x = "6" and e = "2" and n = "6755399441055744"]
  by (simp add: power_int_def power_divide)

lemma redondear_v43: "redondear (3752999689475413 / 562949953421312) = Finite (3752999689475413 / 562949953421312)"
  using redondear_eval [where x = "3752999689475413 / 562949953421312" and e = "2" and n = "7505999378950826"]
  by (simp add: power_int_def power_divide)

lemma redondear_v44: "redondear (15011998757901653 / 2251799813685248) = Finite (3752999689475413 / 562949953421312)"
  using redondear_eval [where x = "15011998757901653 / 2251799813685248" and e = "2" and n = "7505999378950826"]
  by (simp add: power_int_def power_divide)

lemma redondear_v45: "redondear (7) = Finite (7)"
  using redondear_eval [where x = "7" and e = "2" and n = "7881299347898368"]
  by (simp add: power_int_def power_divide)

lemma redondear_v46: "redondear (8) = Finite (8)"
  using redondear_eval [where x = "8" and e = "3" and n = "4503599627370496"]
  by (simp add: power_int_def power_divide)

lemma redondear_v47: "redondear (10) = Finite (10)"
  using redondear_eval [where x = "10" and e = "3" and n = "5629499534213120"]
  by (simp add: power_int_def power_divide)

lemma redondear_v48: "redondear (12) = Finite (12)"
  using redondear_eval [where x = "12" and e = "3" and n = "6755399441055744"]
  by (simp add: power_int_def power_divide)

lemma redondear_v49: "redondear (13) = Finite (13)"
  using redondear_eval [where x = "13" and e = "3" and n = "7318349394477056"]
  by (simp add: power_int_def power_divide)

lemma redondear_v50: "redondear (14) = Finite (14)"
  using redondear_eval [where x = "14" and e = "3" and n = "7881299347898368"]
  by (simp add: power_int_def power_divide)

lemma redondear_v51: "redondear (15) = Finite (15)"
  using redondear_eval [where x = "15" and e = "3" and n = "8444249301319680"]
  by (simp add: power_int_def power_divide)

lemma redondear_v52: "redondear (21) = Finite (21)"
  using redondear_eval [where x = "21" and e = "4" and n = "5910974510923776"]
  by (simp add: power_int_def power_divide)

lemma redondear_v53: "redondear (28) = Finite (28)"
  using redondear_eval [where x = "28" and e = "4" and n = "7881299347898368"]
  by (simp add: power_int_def power_divide)

lemma redondear_v54: "redondear (42) = Finite (42)"
  using redondear_eval [where x = "42" and e = "5" and n = "5910974510923776"]
  by (simp add: power_int_def power_divide)

lemma redondear_v55: "redondear (9007199254740992) = Finite (9007199254740992)"
  using redondear_eval [where x = "9007199254740992" and e = "53" and n = "4503599627370496"]
  by (simp add: power_int_def power_divide)

lemma redondear_v56: "redondear (18014398509481984) = Finite (18014398509481984)"
  using redondear_eval [where x = "18014398509481984" and e = "54" and n = "4503599627370496"]
  by (simp add: power_int_def power_divide)

lemma redondear_v57: "redondear (27021597764222976) = Finite (27021597764222976)"
  using redondear_eval [where x = "27021597764222976" and e = "54" and n = "6755399441055744"]
  by (simp add: power_int_def power_divide)

lemma redondear_v58: "redondear (27021597764222978) = Finite (27021597764222976)"
  using redondear_eval [where x = "27021597764222978" and e = "54" and n = "6755399441055744"]
  by (simp add: power_int_def power_divide)

lemmas redondear_valores = redondear_zero
  redondear_v0 redondear_v1 redondear_v2 redondear_v3 redondear_v4
  redondear_v5 redondear_v6 redondear_v7 redondear_v8 redondear_v9
  redondear_v10 redondear_v11 redondear_v12 redondear_v13 redondear_v14
  redondear_v15 redondear_v16 redondear_v17 redondear_v18 redondear_v19
  redondear_v20 redondear_v21 redondear_v22 redondear_v23 redondear_v24
  redondear_v25 redondear_v26 redondear_v27 redondear_v28 redondear_v29
  redondear_v30 redondear_v31 redondear_v32 redondear_v33 redondear_v34
  redondear_v35 redondear_v36 redondear_v37 redondear_v38 redondear_v39
  redondear_v40 redondear_v41 redondear_v42 redondear_v43 redondear_v44
  redondear_v45 redondear_v46 redondear_v47 redondear_v48 redondear_v49
  redondear_v50 redondear_v51 redondear_v52 redondear_v53 redondear_v54
  redondear_v55 redondear_v56 redondear_v57 redondear_v58

lemma pairwise_sum_short: "length a < 8 \<Longrightarrow> pairwise_sum a = foldl fadd (Finite 0) a"
  by simp

lemmas evaluar =
  comparar_perfiles_def comparar_perfiles_registro_def np_sub_escalar_def np_mean_def
  np_sum_def pairwise_sum_short fsub_def np_sub_def np_abs_def np_max_def np_maximum_def
  redondear_valores

section \<open>The order of the additions in a sum\<close>

text \<open>
  Nine elements: the first eight are combined as a balanced tree and the ninth is added
  last. Sixteen elements: the two blocks of eight are added lane by lane first.
\<close>

lemma pairwise_sum_nine:
  "pairwise_sum [a, b, c, d, e, f, g, h, i]
     = fadd (fadd (fadd (fadd a b) (fadd c d)) (fadd (fadd e f) (fadd g h))) i"
  by (simp add: Let_def)

lemma pairwise_sum_sixteen:
  "pairwise_sum [a, b, c, d, e, f, g, h, a', b', c', d', e', f', g', h']
     = fadd (fadd (fadd (fadd a a') (fadd b b')) (fadd (fadd c c') (fadd d d')))
            (fadd (fadd (fadd e e') (fadd f f')) (fadd (fadd g g') (fadd h h')))"
  by (simp add: Let_def)

section \<open>Properties of the comparator\<close>

subsection \<open>Comparison and maximum\<close>

lemma fsub_self: "fsub x x = Finite 0 \<or> fsub x x = NaN"
  by (cases x) (simp_all add: fsub_def redondear_zero)

lemma fgt_nan: "isnan d \<Longrightarrow> \<not> fgt d t"
  by (cases d) simp_all

lemma isnan_np_maximum: "isnan (np_maximum x y) \<longleftrightarrow> isnan x \<or> isnan y"
  by (cases x; cases y) (simp_all add: np_maximum_def)

lemma fgt_np_maximum:
  "\<not> isnan x \<Longrightarrow> \<not> isnan y \<Longrightarrow> fgt (np_maximum x y) t \<longleftrightarrow> fgt x t \<or> fgt y t"
  by (cases x; cases y; cases t) (auto simp: np_maximum_def)

lemma isnan_foldl_np_maximum:
  "isnan (foldl np_maximum x xs) \<longleftrightarrow> isnan x \<or> list_ex isnan xs"
  by (induction xs arbitrary: x) (auto simp: isnan_np_maximum)

lemma fgt_foldl_np_maximum:
  "fgt (foldl np_maximum x xs) t \<longleftrightarrow>
   list_all (\<lambda>d. \<not> isnan d) (x # xs) \<and> list_ex (\<lambda>d. fgt d t) (x # xs)"
proof (induction xs arbitrary: x)
  case Nil
  then show ?case using fgt_nan [of x t] by auto
next
  case (Cons y ys)
  show ?case
  proof (cases "isnan x \<or> isnan y")
    case True
    then have "isnan (foldl np_maximum (np_maximum x y) ys)"
      by (simp add: isnan_foldl_np_maximum isnan_np_maximum)
    then have "\<not> fgt (foldl np_maximum (np_maximum x y) ys) t" by (rule fgt_nan)
    with True show ?thesis by auto
  next
    case False
    then show ?thesis
      using Cons.IH [of "np_maximum x y"] by (auto simp: isnan_np_maximum fgt_np_maximum)
  qed
qed

subsection \<open>The comparator on profiles of equal length\<close>

lemma length_centrado: "length (centrado a) = length a"
  by (simp add: centrado_def)

lemma centrado_eq: "np_sub_escalar a (np_mean a) = centrado a"
  by (simp add: np_sub_escalar_def centrado_def)

lemma np_abs_np_sub:
  "length a = length b \<Longrightarrow>
   np_sub (centrado a) (centrado b) = Inr (map2 fsub (centrado a) (centrado b)) \<and>
   np_abs (map2 fsub (centrado a) (centrado b)) = desviaciones a b"
  by (simp add: np_sub_def np_abs_def desviaciones_def length_centrado map_zip_map
      map_zip_map2 split_def)

lemma length_desviaciones:
  "length a = length b \<Longrightarrow> length (desviaciones a b) = length a"
  by (simp add: desviaciones_def length_centrado)

lemma comparar_perfiles_registro_equal_length:
  assumes "perfil_maestro self = Some master" "length current = length master" "current \<noteq> []"
  shows "comparar_perfiles_registro self current =
     (if fgt (foldl np_maximum (hd (desviaciones current master))
                (tl (desviaciones current master))) (UMBRAL_TOLERANCIA self)
      then Inr (Defecto_detectado
                  (foldl np_maximum (hd (desviaciones current master))
                     (tl (desviaciones current master))) (UMBRAL_TOLERANCIA self), Some True)
      else Inr (Pieza_ok
                  (foldl np_maximum (hd (desviaciones current master))
                     (tl (desviaciones current master))), Some False))"
proof -
  have "desviaciones current master \<noteq> []"
    using length_desviaciones [OF assms(2)] assms(3) by auto
  then obtain d ds where d: "desviaciones current master = d # ds"
    by (cases "desviaciones current master") auto
  show ?thesis
    using assms np_abs_np_sub [OF assms(2)] d
    by (simp add: comparar_perfiles_registro_def centrado_eq np_max_def)
qed

lemma comparar_perfiles_equal_length:
  assumes "perfil_maestro self = Some master" "length current = length master" "current \<noteq> []"
  shows "comparar_perfiles self current =
     (if list_all (\<lambda>d. \<not> isnan d) (desviaciones current master) \<and>
         list_ex (\<lambda>d. fgt d (UMBRAL_TOLERANCIA self)) (desviaciones current master)
      then DEFECTIVE else GOOD)"
proof -
  have "desviaciones current master \<noteq> []"
    using length_desviaciones [OF assms(2)] assms(3) by auto
  then obtain d ds where d: "desviaciones current master = d # ds"
    by (cases "desviaciones current master") auto
  show ?thesis
    using comparar_perfiles_registro_equal_length [OF assms] d
      fgt_foldl_np_maximum [of d ds "UMBRAL_TOLERANCIA self"]
    by (simp add: comparar_perfiles_def)
qed

lemma comparar_perfiles_empty:
  "comparar_perfiles (self\<lparr>perfil_maestro := Some [], UMBRAL_TOLERANCIA := tol\<rparr>) []
     = Inl ValueError"
  by (simp add: comparar_perfiles_def comparar_perfiles_registro_def np_sub_escalar_def
      np_sub_def np_abs_def np_max_def)

subsection \<open>Centring over the reals\<close>




lemma valor_fgt: "es_finito d \<Longrightarrow> es_finito t \<Longrightarrow> fgt d t \<longleftrightarrow> valor d > valor t"
  by (cases d; cases t) simp_all

lemma es_finito_not_nan: "es_finito d \<Longrightarrow> \<not> isnan d"
  by (cases d) simp_all

lemma desviaciones_same:
  assumes "centrado a = centrado b"
  shows "list_all (\<lambda>d. d = Finite 0 \<or> d = NaN) (desviaciones a b)"
proof -
  have "desviaciones a b = map (\<lambda>x. fabs (fsub x x)) (centrado b)"
    by (simp add: desviaciones_def assms zip_same_conv_map)
  moreover have "fabs (fsub x x) = Finite 0 \<or> fabs (fsub x x) = NaN" for x
    using fsub_self [of x] by auto
  ultimately show ?thesis by (simp add: list_all_iff)
qed

lemma fge_zero_not_fgt: "fge tol (Finite 0) \<Longrightarrow> d = Finite 0 \<or> d = NaN \<Longrightarrow> \<not> fgt d tol"
  by (cases tol) auto

subsection \<open>The claims about the comparator\<close>

text \<open>
  Claim C1. For every current profile and every master profile of a different length, and
  for every tolerance, \<open>comparar_perfiles\<close> returns the defect verdict, whatever the
  samples are.
\<close>

theorem comparar_perfiles_size_mismatch:
  "length current \<noteq> length master \<Longrightarrow>
   comparar_perfiles (self\<lparr>perfil_maestro := Some master, UMBRAL_TOLERANCIA := tol\<rparr>) current
     = DEFECTIVE"
  by (auto simp: comparar_perfiles_def comparar_perfiles_registro_def)

theorem comparar_perfiles_size_mismatch_witness:
  "length (map Finite [1, 2]) \<noteq> length (map Finite [1, 2, 3]) \<and>
   comparar_perfiles
     \<lparr>perfilometro = None, cobot_socket = None,
      perfil_maestro = Some (map Finite [1, 2, 3]), UMBRAL_TOLERANCIA = Finite 1000\<rparr>
     (map Finite [1, 2]) = DEFECTIVE"
  using comparar_perfiles_size_mismatch
    [where current = "map Finite [1, 2]" and master = "map Finite [1, 2, 3]" and
       tol = "Finite 1000" and
       self = "\<lparr>perfilometro = None, cobot_socket = None,
                perfil_maestro = None, UMBRAL_TOLERANCIA = Finite 0\<rparr>"]
  by simp




text \<open>
  Claim C6, as amended. For non-empty profiles of equal length, \<open>comparar_perfiles\<close>
  returns the defect verdict exactly when none of the absolute pointwise differences of
  the centred sequences, as computed in \<^verbatim>\<open>float64\<close>, is NaN and one of them is
  strictly greater than the tolerance, and the good verdict otherwise. When these
  differences and the tolerance are finite, that is: the defect verdict exactly when
  their maximum is strictly greater than the tolerance, and the good verdict exactly when
  it is at most the tolerance; a computed maximum equal to the tolerance gives the good
  verdict.
\<close>

theorem comparar_perfiles_threshold:
  assumes "length current = length master" "current \<noteq> []"
  shows
   "(comparar_perfiles (self\<lparr>perfil_maestro := Some master, UMBRAL_TOLERANCIA := tol\<rparr>) current
       = DEFECTIVE \<longleftrightarrow>
     list_all (\<lambda>d. \<not> isnan d) (desviaciones current master) \<and>
     list_ex (\<lambda>d. fgt d tol) (desviaciones current master)) \<and>
    (comparar_perfiles (self\<lparr>perfil_maestro := Some master, UMBRAL_TOLERANCIA := tol\<rparr>) current
       = GOOD \<longleftrightarrow>
     \<not> (list_all (\<lambda>d. \<not> isnan d) (desviaciones current master) \<and>
        list_ex (\<lambda>d. fgt d tol) (desviaciones current master))) \<and>
    (list_all es_finito (desviaciones current master) \<longrightarrow> es_finito tol \<longrightarrow>
      (comparar_perfiles (self\<lparr>perfil_maestro := Some master, UMBRAL_TOLERANCIA := tol\<rparr>) current
         = DEFECTIVE \<longleftrightarrow> Max (valor ` set (desviaciones current master)) > valor tol) \<and>
      (comparar_perfiles (self\<lparr>perfil_maestro := Some master, UMBRAL_TOLERANCIA := tol\<rparr>) current
         = GOOD \<longleftrightarrow> Max (valor ` set (desviaciones current master)) \<le> valor tol))"
proof -
  let ?ds = "desviaciones current master"
  let ?r = "comparar_perfiles (self\<lparr>perfil_maestro := Some master, UMBRAL_TOLERANCIA := tol\<rparr>)
              current"
  have r: "?r = (if list_all (\<lambda>d. \<not> isnan d) ?ds \<and> list_ex (\<lambda>d. fgt d tol) ?ds
                 then DEFECTIVE else GOOD)"
    using comparar_perfiles_equal_length
      [of "self\<lparr>perfil_maestro := Some master, UMBRAL_TOLERANCIA := tol\<rparr>" master current]
      assms by simp
  have ne: "?ds \<noteq> []"
    using length_desviaciones [OF assms(1)] assms(2) by auto
  have fin: "list_all (\<lambda>d. \<not> isnan d) ?ds \<and>
      (list_ex (\<lambda>d. fgt d tol) ?ds \<longleftrightarrow> Max (valor ` set ?ds) > valor tol)"
    if f: "list_all es_finito ?ds" and t: "es_finito tol"
  proof
    show "list_all (\<lambda>d. \<not> isnan d) ?ds"
      using f by (auto simp: list_all_iff es_finito_not_nan)
    have "list_ex (\<lambda>d. fgt d tol) ?ds \<longleftrightarrow> (\<exists>d\<in>set ?ds. valor d > valor tol)"
      using f t by (auto simp: list_ex_iff list_all_iff valor_fgt)
    also have "\<dots> \<longleftrightarrow> Max (valor ` set ?ds) > valor tol"
      using ne by (subst Max_gr_iff) auto
    finally show "list_ex (\<lambda>d. fgt d tol) ?ds \<longleftrightarrow> Max (valor ` set ?ds) > valor tol" .
  qed
  show ?thesis
    using r fin by (auto simp: not_less)
qed

theorem comparar_perfiles_threshold_witness:
  "length (map Finite [1, - 1, 0]) = length (map Finite [0, 0, 0]) \<and>
   map Finite [1, - 1, 0] \<noteq> [] \<and>
   list_all es_finito (desviaciones (map Finite [1, - 1, 0]) (map Finite [0, 0, 0])) \<and>
   es_finito (Finite 1) \<and>
   Max (valor ` set (desviaciones (map Finite [1, - 1, 0]) (map Finite [0, 0, 0])))
     = valor (Finite 1) \<and>
   comparar_perfiles (sistema_conectado\<lparr>UMBRAL_TOLERANCIA := Finite 1\<rparr>)
     (map Finite [1, - 1, 0]) = GOOD"
proof -
  have d: "desviaciones (map Finite [1, - 1, 0]) (map Finite [0, 0, 0]) = map Finite [1, 1, 0]"
    by (simp add: desviaciones_def centrado_def evaluar)
  show ?thesis
    using d comparar_perfiles_threshold
      [where current = "map Finite [1, - 1, 0]" and master = "map Finite [0, 0, 0]" and
         tol = "Finite 1" and self = sistema_conectado]
    by (simp add: sistema_conectado_def)
qed

text \<open>
  The claim as it was written, with the deviation of the real numbers, fails. The master
  profile is \<open>[0, 0, 0]\<close>, the current profile holds 0 and the doubles nearest to 0.1
  and 0.2, the tolerance is the double nearest to 0.1. Over the reals the maximum
  deviation of these samples equals the tolerance; the program computes a mean and a
  deviation of 0.10000000000000002 and returns the defect verdict.
\<close>

theorem comparar_perfiles_threshold_counterexample:
  "spec_max_deviation (map valor [Finite 0, redondear (1 / 10), redondear (2 / 10)])
       (map valor (map Finite [0, 0, 0]))
     = valor (redondear (1 / 10)) \<and>
   comparar_perfiles (sistema_conectado\<lparr>UMBRAL_TOLERANCIA := redondear (1 / 10)\<rparr>)
     [Finite 0, redondear (1 / 10), redondear (2 / 10)] = DEFECTIVE"
  by (simp add: sistema_conectado_def evaluar spec_max_deviation_def spec_centered_def
      lessThan_Suc numeral_3_eq_3)

text \<open>
  Claim C7, as amended. If the centred sequence of the non-empty current profile, as
  computed in \<^verbatim>\<open>float64\<close>, equals that of the master profile, and the tolerance is
  not negative, \<open>comparar_perfiles\<close> returns the good verdict; in particular when the
  current profile is the master profile sample for sample.
\<close>

theorem comparar_perfiles_same_shape:
  assumes "current \<noteq> []" "fge tol (Finite 0)"
  shows
   "(centrado current = centrado master \<longrightarrow>
     comparar_perfiles (self\<lparr>perfil_maestro := Some master, UMBRAL_TOLERANCIA := tol\<rparr>) current
       = GOOD) \<and>
    comparar_perfiles (self\<lparr>perfil_maestro := Some current, UMBRAL_TOLERANCIA := tol\<rparr>) current
      = GOOD"
proof -
  have g: "comparar_perfiles (self\<lparr>perfil_maestro := Some m, UMBRAL_TOLERANCIA := tol\<rparr>) current
       = GOOD" if eq: "centrado current = centrado m" for m
  proof -
    have len: "length current = length m"
      using eq length_centrado [of current] length_centrado [of m] by simp
    have "\<not> list_ex (\<lambda>d. fgt d tol) (desviaciones current m)"
      using desviaciones_same [OF eq] fge_zero_not_fgt [OF assms(2)]
      by (auto simp: list_ex_iff list_all_iff)
    then show ?thesis
      using comparar_perfiles_equal_length
        [of "self\<lparr>perfil_maestro := Some m, UMBRAL_TOLERANCIA := tol\<rparr>" m current]
        len assms(1) by simp
  qed
  show ?thesis using g [of master] g [of current] by simp
qed

theorem comparar_perfiles_same_shape_witness:
  "map Finite [3, 5, 4] \<noteq> [] \<and> fge (Finite 0) (Finite 0) \<and>
   centrado (map Finite [3, 5, 4]) = centrado (map Finite [13, 15, 14]) \<and>
   comparar_perfiles
     (sistema_conectado\<lparr>perfil_maestro := Some (map Finite [13, 15, 14]),
        UMBRAL_TOLERANCIA := Finite 0\<rparr>) (map Finite [3, 5, 4]) = GOOD \<and>
   comparar_perfiles
     (sistema_conectado\<lparr>perfil_maestro := Some (map Finite [3, 5, 4]),
        UMBRAL_TOLERANCIA := Finite 0\<rparr>) (map Finite [3, 5, 4]) = GOOD"
proof -
  have c: "centrado (map Finite [3, 5, 4]) = centrado (map Finite [13, 15, 14])"
    by (simp add: centrado_def evaluar)
  show ?thesis
    using c comparar_perfiles_same_shape
      [where current = "map Finite [3, 5, 4]" and master = "map Finite [13, 15, 14]" and
         tol = "Finite 0" and self = sistema_conectado]
    by simp
qed

text \<open>
  The claim as it was written, with centring over the reals, fails. The current profile
  \<open>[1, 1, 2]\<close> is the master profile \<open>[0, 0, 1]\<close> with 1 added to every sample, so
  over the reals the two are equal after centring; the program computes centred samples
  that differ in the last bit and, with the tolerance 0, returns the defect verdict.
\<close>

theorem comparar_perfiles_same_shape_counterexample:
  "spec_centered (map valor (map Finite [1, 1, 2]))
     = spec_centered (map valor (map Finite [0, 0, 1])) \<and>
   comparar_perfiles
     (sistema_conectado\<lparr>perfil_maestro := Some (map Finite [0, 0, 1]),
        UMBRAL_TOLERANCIA := Finite 0\<rparr>) (map Finite [1, 1, 2]) = DEFECTIVE"
  by (simp add: sistema_conectado_def evaluar spec_centered_def)

text \<open>
  Claim C8. The master profile is \<open>[0, 0, 0]\<close>, the current profile holds the doubles
  nearest to 0.1, -0.1 and 0.2. The master stays \<open>[0, 0, 0]\<close> after centring; the
  current profile centres to three numbers within 0.0001 of 0.0333, -0.1667 and 0.1333;
  the maximum deviation the comparator obtains, and logs, is within 0.0001 of 0.1667; the
  verdict is the defect verdict exactly for a tolerance below that deviation, and so,
  for the tolerance 0.5, the good verdict.
\<close>

theorem comparar_perfiles_scenario:
  "np_sub_escalar (map Finite [0, 0, 0]) (np_mean (map Finite [0, 0, 0]))
     = map Finite [0, 0, 0] \<and>
   np_sub_escalar (map redondear [1 / 10, - (1 / 10), 2 / 10])
       (np_mean (map redondear [1 / 10, - (1 / 10), 2 / 10]))
     = map Finite [2401919801264265 / 2 ^ 56, - (3002399751580331 / 2 ^ 54),
                   2401919801264265 / 2 ^ 54] \<and>
   \<bar>2401919801264265 / 2 ^ 56 - 0.0333\<bar> < (0.0001 :: real) \<and>
   \<bar>- (3002399751580331 / 2 ^ 54) - (- 0.1667)\<bar> < (0.0001 :: real) \<and>
   \<bar>2401919801264265 / 2 ^ 54 - 0.1333\<bar> < (0.0001 :: real) \<and>
   comparar_perfiles_registro
       (self\<lparr>perfil_maestro := Some (map Finite [0, 0, 0]), UMBRAL_TOLERANCIA := Finite (1 / 2)\<rparr>)
       (map redondear [1 / 10, - (1 / 10), 2 / 10])
     = Inr (Pieza_ok (Finite (3002399751580331 / 2 ^ 54)), Some False) \<and>
   \<bar>3002399751580331 / 2 ^ 54 - 0.1667\<bar> < (0.0001 :: real) \<and>
   comparar_perfiles
       (self\<lparr>perfil_maestro := Some (map Finite [0, 0, 0]), UMBRAL_TOLERANCIA := tol\<rparr>)
       (map redondear [1 / 10, - (1 / 10), 2 / 10])
     = (if fgt (Finite (3002399751580331 / 2 ^ 54)) tol then DEFECTIVE else GOOD) \<and>
   comparar_perfiles
       (self\<lparr>perfil_maestro := Some (map Finite [0, 0, 0]), UMBRAL_TOLERANCIA := Finite (1 / 2)\<rparr>)
       (map redondear [1 / 10, - (1 / 10), 2 / 10]) = GOOD"
  by (simp add: evaluar)


section \<open>Properties of the inspection cycle\<close>

subsection \<open>Which exceptions leave a pass, and what a pass keeps\<close>

lemma comparar_perfiles_raises:
  "comparar_perfiles self perfil_actual = Inl e \<Longrightarrow> e = ValueError"
  by (auto simp: comparar_perfiles_def comparar_perfiles_registro_def Let_def np_sub_def
      np_max_def split: option.splits if_splits sum.splits list.splits)

lemma enviar_comando_cobot_raises:
  "enviar_comando_cobot env self comando = (Some e, evs) \<Longrightarrow> e = AttributeError"
  by (auto simp: enviar_comando_cobot_def split: option.splits if_splits)

lemma cuerpo_ciclo_interrupt:
  "cuerpo_ciclo env self = (Some KeyboardInterrupt, self', evs) \<Longrightarrow>
   recv_cobot env = RecvInterrupt"
  by (auto simp: cuerpo_ciclo_def conectar_cobot_def
      split: option.splits recv_result.splits sum.splits prod.splits
      dest: comparar_perfiles_raises enviar_comando_cobot_raises)

lemma iteracion_continues:
  "recv_cobot env \<noteq> RecvInterrupt \<Longrightarrow> fst (iteracion env self) = None"
  by (auto simp: iteracion_def split: prod.splits option.splits dest: cuerpo_ciclo_interrupt)

lemma cuerpo_ciclo_self: "fst (snd (cuerpo_ciclo env self)) = self"
  by (auto simp: cuerpo_ciclo_def conectar_cobot_def
      split: option.splits recv_result.splits sum.splits prod.splits)

lemma conectar_enlaces_presentes:
  "enlaces_presentes self \<Longrightarrow> enlaces_presentes (fst (snd (conectar env self)))"
  by (auto simp: conectar_def enlaces_presentes_def CognexPerfilometro_init_def)

lemma iteracion_enlaces_presentes:
  "enlaces_presentes self \<Longrightarrow> enlaces_presentes (fst (snd (iteracion env self)))"
  using cuerpo_ciclo_self [of env self] conectar_enlaces_presentes [of self env]
  by (auto simp: iteracion_def split: prod.splits option.splits)

lemma iteracion_interrupt:
  "cobot_socket self \<noteq> None \<Longrightarrow> recv_cobot env = RecvInterrupt \<Longrightarrow>
   iteracion env self = (Some KeyboardInterrupt, self, [])"
  by (auto simp: iteracion_def cuerpo_ciclo_def)

lemma ejecutar_ciclo_inspeccion_interrupt:
  "enlaces_presentes self \<Longrightarrow> list_all (\<lambda>e. recv_cobot e \<noteq> RecvInterrupt) pre \<Longrightarrow>
   recv_cobot env = RecvInterrupt \<Longrightarrow>
   \<exists>self' evs. ejecutar_ciclo_inspeccion (pre @ env # post) self = (Some KeyboardInterrupt, self', evs)
      \<and> enlaces_presentes self'"
proof (induction pre arbitrary: self)
  case Nil
  then show ?case
    using iteracion_interrupt [of self env] by (simp add: enlaces_presentes_def)
next
  case (Cons a pre)
  obtain r s1 ev1 where it: "iteracion a self = (r, s1, ev1)"
    by (cases "iteracion a self") auto
  from Cons.prems have "recv_cobot a \<noteq> RecvInterrupt" by simp
  then have r: "r = None" using iteracion_continues [of a self] it by simp
  have "enlaces_presentes s1"
    using iteracion_enlaces_presentes [of self a] Cons.prems(1) it by simp
  then obtain self' evs where
    "ejecutar_ciclo_inspeccion (pre @ env # post) s1 = (Some KeyboardInterrupt, self', evs)"
    "enlaces_presentes self'"
    using Cons.IH [of s1] Cons.prems by auto
  then show ?case using it r by simp
qed

lemma desconectar_todo_enlaces_presentes:
  "enlaces_presentes self \<Longrightarrow> snd (desconectar_todo self) = [Cerrar_perfilometro, Cerrar_cobot]"
  by (auto simp: desconectar_todo_def enlaces_presentes_def CognexPerfilometro_close_def
      split: option.splits prod.splits)

lemma conectar_ok:
  "connect_perfilometro env \<Longrightarrow> connect_cobot env \<Longrightarrow>
   conectar env self = (True, self\<lparr>perfilometro := Some \<lparr>is_connected = True\<rparr>,
       cobot_socket := Some (Socket True)\<rparr>, [Conectar_perfilometro True, Conectar_cobot True])"
  by (simp add: conectar_def CognexPerfilometro_init_def)

subsection \<open>The claims about the cycle\<close>

text \<open>
  Claim C2. In a pass of the cycle in which the cobot has signalled a part and
  \<open>adquirir_perfil\<close> returns no profile, the controller sends nothing to the cobot,
  connects neither link, does not pause, leaves its state as it was and goes on to the
  next pass, that is, to waiting for the next signal.
\<close>

theorem acquisition_failure_sends_nothing:
  "cobot_socket self = Some s \<Longrightarrow> perfilometro self = Some p \<Longrightarrow>
   recv_cobot env = RecvDatos \<Longrightarrow> adquirir_perfil env p = None \<Longrightarrow>
   iteracion env self = (None, self, []) \<and>
   ejecutar_ciclo_inspeccion (env # envs) self = ejecutar_ciclo_inspeccion envs self"
  by (simp add: iteracion_def cuerpo_ciclo_def split: prod.splits)

theorem acquisition_failure_sends_nothing_witness:
  "cobot_socket sistema_conectado = Some (Socket True) \<and>
   perfilometro sistema_conectado = Some \<lparr>is_connected = True\<rparr> \<and>
   recv_cobot (entorno_normal\<lparr>respuesta_sensor := Partes ''0'' None\<rparr>) = RecvDatos \<and>
   adquirir_perfil (entorno_normal\<lparr>respuesta_sensor := Partes ''0'' None\<rparr>)
     \<lparr>is_connected = True\<rparr> = None \<and>
   iteracion (entorno_normal\<lparr>respuesta_sensor := Partes ''0'' None\<rparr>) sistema_conectado
     = (None, sistema_conectado, []) \<and>
   ejecutar_ciclo_inspeccion [entorno_normal\<lparr>respuesta_sensor := Partes ''0'' None\<rparr>]
     sistema_conectado = (None, sistema_conectado, [])"
  using acquisition_failure_sends_nothing
    [where self = sistema_conectado and s = "Socket True" and p = "\<lparr>is_connected = True\<rparr>" and
       env = "entorno_normal\<lparr>respuesta_sensor := Partes ''0'' None\<rparr>" and envs = "[]"]
  by (simp add: sistema_conectado_def entorno_normal_def adquirir_perfil_def)

text \<open>
  Claim C3, at the input where the code departs from it. The cobot closes the connection
  (\<open>recv\<close> returns no bytes) while both links are connected, and the sensor does not
  accept a new connection at that moment. The pass pauses 5 seconds, the call of the
  missing method \<open>conectar_cobot\<close> raises, the general handler pauses 10 more seconds
  and calls \<open>conectar\<close>: a new sensor object tries to connect and fails, so the sensor
  link goes from connected to not connected, and the cobot link is not reconnected.
\<close>

theorem peer_closed_disturbs_sensor_link:
  "iteracion (entorno_normal\<lparr>recv_cobot := RecvVacio, connect_perfilometro := False\<rparr>)
       sistema_conectado
     = (None, sistema_conectado\<lparr>perfilometro := Some \<lparr>is_connected = False\<rparr>\<rparr>,
        [Sleep 5, Sleep 10, Conectar_perfilometro False]) \<and>
   perfilometro sistema_conectado = Some \<lparr>is_connected = True\<rparr>"
  by (simp add: iteracion_def cuerpo_ciclo_def conectar_cobot_def conectar_def
      CognexPerfilometro_init_def sistema_conectado_def entorno_normal_def)

text \<open>
  The same for every state and environment: after the peer closed the connection the
  pass pauses twice and runs \<open>conectar\<close>, which starts with the sensor.
\<close>

lemma peer_closed_calls_conectar:
  "cobot_socket self = Some s \<Longrightarrow> recv_cobot env = RecvVacio \<Longrightarrow>
   iteracion env self =
     (case conectar env self of (ok, self', evs) \<Rightarrow> (None, self', [Sleep 5, Sleep 10] @ evs))"
  by (simp add: iteracion_def cuerpo_ciclo_def conectar_cobot_def split: prod.splits)

lemma peer_closed_connects_sensor:
  "cobot_socket self = Some s \<Longrightarrow> recv_cobot env = RecvVacio \<Longrightarrow>
   list_ex es_conexion_perfilometro (snd (snd (iteracion env self)))"
  by (simp add: peer_closed_calls_conectar conectar_def CognexPerfilometro_init_def
      split: prod.splits)

text \<open>
  Claim C4, as amended. When \<open>sendall\<close> fails with a socket error while a verdict is
  transmitted, \<open>enviar_comando_cobot\<close> catches the error and returns normally: the pass
  ends with the one failed transmission as its only event, without a pause and without a
  connection attempt on either link, the state is as it was, and the loop goes on to the
  next pass.
\<close>

theorem send_failure_is_swallowed:
  "cobot_socket self = Some s \<Longrightarrow> perfilometro self = Some p \<Longrightarrow>
   recv_cobot env = RecvDatos \<Longrightarrow> adquirir_perfil env p = Some perfil_actual \<Longrightarrow>
   comparar_perfiles self perfil_actual = Inr defecto \<Longrightarrow> \<not> sendall_cobot env \<Longrightarrow>
   iteracion env self
     = (None, self, [Enviar (if py_bool defecto then PIEZA_DEFECTUOSA else PIEZA_BUENA) False]) \<and>
   ejecutar_ciclo_inspeccion (env # envs) self
     = (case ejecutar_ciclo_inspeccion envs self of
          (r, self', evs) \<Rightarrow>
            (r, self', Enviar (if py_bool defecto then PIEZA_DEFECTUOSA else PIEZA_BUENA) False # evs))"
  by (simp add: iteracion_def cuerpo_ciclo_def enviar_comando_cobot_def split: prod.splits)

theorem send_failure_is_swallowed_witness:
  "cobot_socket sistema_conectado = Some (Socket True) \<and>
   perfilometro sistema_conectado = Some \<lparr>is_connected = True\<rparr> \<and>
   recv_cobot (entorno_normal\<lparr>sendall_cobot := False\<rparr>) = RecvDatos \<and>
   adquirir_perfil (entorno_normal\<lparr>sendall_cobot := False\<rparr>) \<lparr>is_connected = True\<rparr>
     = Some (map Finite [0, 0, 10]) \<and>
   comparar_perfiles sistema_conectado (map Finite [0, 0, 10]) = DEFECTIVE \<and>
   \<not> sendall_cobot (entorno_normal\<lparr>sendall_cobot := False\<rparr>) \<and>
   iteracion (entorno_normal\<lparr>sendall_cobot := False\<rparr>) sistema_conectado
     = (None, sistema_conectado, [Enviar PIEZA_DEFECTUOSA False])"
proof -
  have cmp: "comparar_perfiles sistema_conectado (map Finite [0, 0, 10]) = DEFECTIVE"
    by (simp add: sistema_conectado_def evaluar)
  have adq: "adquirir_perfil (entorno_normal\<lparr>sendall_cobot := False\<rparr>) \<lparr>is_connected = True\<rparr>
     = Some (map Finite [0, 0, 10])"
    by (simp add: entorno_normal_def adquirir_perfil_def)
  show ?thesis
    using cmp adq send_failure_is_swallowed
      [where self = sistema_conectado and s = "Socket True" and
         p = "\<lparr>is_connected = True\<rparr>" and env = "entorno_normal\<lparr>sendall_cobot := False\<rparr>" and
         perfil_actual = "map Finite [0, 0, 10]" and defecto = "Some True" and envs = "[]"]
    by (simp add: sistema_conectado_def entorno_normal_def py_bool_def)
qed

text \<open>
  The claim as it was written fails: in the pass below the transmission of the verdict
  fails, and the trace holds no connection attempt on either link and no pause.
\<close>

theorem send_failure_recovery_counterexample:
  "snd (snd (iteracion (entorno_normal\<lparr>sendall_cobot := False\<rparr>) sistema_conectado))
     = [Enviar PIEZA_DEFECTUOSA False] \<and>
   \<not> list_ex es_conexion_perfilometro
        (snd (snd (iteracion (entorno_normal\<lparr>sendall_cobot := False\<rparr>) sistema_conectado))) \<and>
   \<not> list_ex es_conexion_cobot
        (snd (snd (iteracion (entorno_normal\<lparr>sendall_cobot := False\<rparr>) sistema_conectado)))"
  by (simp add: iteracion_def cuerpo_ciclo_def enviar_comando_cobot_def evaluar
      adquirir_perfil_def
      py_bool_def sistema_conectado_def entorno_normal_def)

text \<open>
  Claim C9, as amended. A missing master profile file (\<open>IOError\<close>) ends the process
  through \<open>exit()\<close> before any connection attempt, with exit status 0. A file that does
  not parse (\<open>ValueError\<close>, which \<open>cargar_perfil_maestro\<close> does not catch) ends it
  before any connection attempt with the uncaught exception, exit status 1. When the
  operator interrupts the running cycle, both links are closed and the process ends with
  exit status 0.
\<close>

theorem startup_and_shutdown_exit_codes:
  "programa LoadIOError inicio envs = (SystemExit None, []) \<and>
   codigo_salida (SystemExit None) = Some 0 \<and>
   programa LoadValueError inicio envs = (NoCapturada ValueError, []) \<and>
   codigo_salida (NoCapturada ValueError) = Some 1 \<and>
   (connect_perfilometro inicio \<longrightarrow> connect_cobot inicio \<longrightarrow>
    list_all (\<lambda>e. recv_cobot e \<noteq> RecvInterrupt) pre \<longrightarrow> recv_cobot env = RecvInterrupt \<longrightarrow>
    (\<exists>evs. programa (Cargado perfil) inicio (pre @ env # post)
             = (FinNormal, evs @ [Cerrar_perfilometro, Cerrar_cobot])) \<and>
    codigo_salida (fst (programa (Cargado perfil) inicio (pre @ env # post))) = Some 0)"
proof -
  have a: "programa LoadIOError inicio envs = (SystemExit None, [])"
    by (simp add: programa_def SistemaInspeccion_init_def cargar_perfil_maestro_def)
  have b: "programa LoadValueError inicio envs = (NoCapturada ValueError, [])"
    by (simp add: programa_def SistemaInspeccion_init_def cargar_perfil_maestro_def)
  have c: "\<exists>evs. programa (Cargado perfil) inicio (pre @ env # post)
             = (FinNormal, evs @ [Cerrar_perfilometro, Cerrar_cobot])"
    if ok: "connect_perfilometro inicio" "connect_cobot inicio"
      and pre: "list_all (\<lambda>e. recv_cobot e \<noteq> RecvInterrupt) pre"
      and int: "recv_cobot env = RecvInterrupt"
  proof -
    let ?s = "\<lparr>perfilometro = None, cobot_socket = None, perfil_maestro = Some perfil,
               UMBRAL_TOLERANCIA = CONFIG_umbral_tolerancia_mm\<rparr>"
    let ?s1 = "?s\<lparr>perfilometro := Some \<lparr>is_connected = True\<rparr>,
                  cobot_socket := Some (Socket True)\<rparr>"
    have "enlaces_presentes ?s1" by (simp add: enlaces_presentes_def)
    then obtain s2 ev2 where
      run: "ejecutar_ciclo_inspeccion (pre @ env # post) ?s1 = (Some KeyboardInterrupt, s2, ev2)"
      and s2: "enlaces_presentes s2"
      using ejecutar_ciclo_inspeccion_interrupt [of ?s1 pre env post] pre int by blast
    obtain s3 ev3 where d: "desconectar_todo s2 = (s3, ev3)"
      by (cases "desconectar_todo s2") auto
    then have ev3: "ev3 = [Cerrar_perfilometro, Cerrar_cobot]"
      using desconectar_todo_enlaces_presentes [OF s2] by simp
    have "programa (Cargado perfil) inicio (pre @ env # post)
        = (FinNormal, ([Conectar_perfilometro True, Conectar_cobot True] @ ev2) @ ev3)"
      using run d conectar_ok [OF ok, of ?s]
      by (simp add: programa_def SistemaInspeccion_init_def cargar_perfil_maestro_def)
    then show ?thesis using ev3 by blast
  qed
  show ?thesis
    using a b c by (auto simp: codigo_salida_def)
qed

theorem startup_and_shutdown_exit_codes_witness:
  "connect_perfilometro entorno_normal \<and> connect_cobot entorno_normal \<and>
   list_all (\<lambda>e. recv_cobot e \<noteq> RecvInterrupt) [entorno_normal] \<and>
   recv_cobot (entorno_normal\<lparr>recv_cobot := RecvInterrupt\<rparr>) = RecvInterrupt \<and>
   programa (Cargado (map Finite [0, 0, 0])) entorno_normal
       ([entorno_normal] @ entorno_normal\<lparr>recv_cobot := RecvInterrupt\<rparr> # [])
     = (FinNormal,
        [Conectar_perfilometro True, Conectar_cobot True, Enviar PIEZA_DEFECTUOSA True,
         Cerrar_perfilometro, Cerrar_cobot]) \<and>
   codigo_salida (fst (programa (Cargado (map Finite [0, 0, 0])) entorno_normal
       ([entorno_normal] @ entorno_normal\<lparr>recv_cobot := RecvInterrupt\<rparr> # []))) = Some 0"
proof -
  have run: "programa (Cargado (map Finite [0, 0, 0])) entorno_normal
       ([entorno_normal] @ entorno_normal\<lparr>recv_cobot := RecvInterrupt\<rparr> # [])
     = (FinNormal,
        [Conectar_perfilometro True, Conectar_cobot True, Enviar PIEZA_DEFECTUOSA True,
         Cerrar_perfilometro, Cerrar_cobot])"
    by (simp add: programa_def SistemaInspeccion_init_def cargar_perfil_maestro_def
        conectar_def CognexPerfilometro_init_def iteracion_def cuerpo_ciclo_def
        enviar_comando_cobot_def evaluar adquirir_perfil_def py_bool_def desconectar_todo_def
        CognexPerfilometro_close_def CONFIG_umbral_tolerancia_mm_def entorno_normal_def)
  show ?thesis
    using run startup_and_shutdown_exit_codes
      [where inicio = entorno_normal and pre = "[entorno_normal]" and
         env = "entorno_normal\<lparr>recv_cobot := RecvInterrupt\<rparr>" and post = "[]" and
         perfil = "map Finite [0, 0, 0]" and envs = "[]"]
    by (simp add: entorno_normal_def)
qed

text \<open>
  The claim as it was written fails for the missing file: the exit status is 0.
\<close>

theorem missing_master_exit_code_counterexample:
  "programa LoadIOError entorno_normal [] = (SystemExit None, []) \<and>
   \<not> codigo_salida (fst (programa LoadIOError entorno_normal [])) \<noteq> Some 0"
  by (simp add: programa_def SistemaInspeccion_init_def cargar_perfil_maestro_def
      codigo_salida_def)

text \<open>
  Claim C10. Without a master profile (\<open>perfil_maestro\<close> is \<open>None\<close>) the comparator
  returns \<open>None\<close>, which is neither of the two verdicts; and a pass in which the cobot
  has signalled a part and the sensor has delivered a profile then hands the text
  \<open>PIEZA_BUENA\<close> and a newline to \<open>sendall\<close>, as for a good part.
\<close>

theorem missing_master_sends_good:
  "perfil_maestro self = None \<Longrightarrow>
   comparar_perfiles self perfil_actual = Inr None \<and>
   comparar_perfiles self perfil_actual \<noteq> GOOD \<and>
   comparar_perfiles self perfil_actual \<noteq> DEFECTIVE \<and>
   (cobot_socket self = Some s \<longrightarrow> perfilometro self = Some p \<longrightarrow>
    recv_cobot env = RecvDatos \<longrightarrow> adquirir_perfil env p = Some perfil_actual \<longrightarrow>
    iteracion env self = (None, self, [Enviar PIEZA_BUENA (sendall_cobot env)]))"
  by (simp add: iteracion_def cuerpo_ciclo_def enviar_comando_cobot_def evaluar
      py_bool_def split: prod.splits)

theorem missing_master_sends_good_witness:
  "perfil_maestro (sistema_conectado\<lparr>perfil_maestro := None\<rparr>) = None \<and>
   comparar_perfiles (sistema_conectado\<lparr>perfil_maestro := None\<rparr>) (map Finite [0, 0, 10]) = Inr None \<and>
   cobot_socket (sistema_conectado\<lparr>perfil_maestro := None\<rparr>) = Some (Socket True) \<and>
   perfilometro (sistema_conectado\<lparr>perfil_maestro := None\<rparr>) = Some \<lparr>is_connected = True\<rparr> \<and>
   recv_cobot entorno_normal = RecvDatos \<and>
   adquirir_perfil entorno_normal \<lparr>is_connected = True\<rparr> = Some (map Finite [0, 0, 10]) \<and>
   iteracion entorno_normal (sistema_conectado\<lparr>perfil_maestro := None\<rparr>)
     = (None, sistema_conectado\<lparr>perfil_maestro := None\<rparr>,
        [Enviar (''PIEZA_BUENA'' @ [CHR 0x0A]) True])"
proof -
  have adq: "adquirir_perfil entorno_normal \<lparr>is_connected = True\<rparr> = Some (map Finite [0, 0, 10])"
    by (simp add: entorno_normal_def adquirir_perfil_def)
  show ?thesis
    using adq missing_master_sends_good
      [where self = "sistema_conectado\<lparr>perfil_maestro := None\<rparr>" and s = "Socket True" and
         p = "\<lparr>is_connected = True\<rparr>" and env = entorno_normal and
         perfil_actual = "map Finite [0, 0, 10]"]
    by (simp add: sistema_conectado_def entorno_normal_def PIEZA_BUENA_def)
qed


section \<open>The earlier scripts compared\<close>

text \<open>
  On profiles of equal length the comparator of \<^verbatim>\<open>main2.py\<close> is the one of
  \<^verbatim>\<open>main.3.py\<close>.
\<close>

lemma comparar_perfiles_main2_equal_length:
  "perfil_maestro self = Some master \<Longrightarrow> length current = length master \<Longrightarrow>
   comparar_perfiles_main2 self current = comparar_perfiles self current"
  by (auto simp: comparar_perfiles_main2_def comparar_perfiles_def
      comparar_perfiles_registro_def split: sum.splits)

text \<open>
  Without the comparison of the lengths, \<^verbatim>\<open>main2.py\<close> lets numpy decide: a profile of
  one sample is broadcast (and centred to zero), any other mismatch raises.
\<close>

lemma comparar_perfiles_main2_size_mismatch:
  "comparar_perfiles_main2 (sistema_conectado\<lparr>perfil_maestro := Some (map Finite [0, 0])\<rparr>)
     (map Finite [5]) = GOOD \<and>
   comparar_perfiles_main2 (sistema_conectado\<lparr>perfil_maestro := Some (map Finite [0, 0, 0])\<rparr>)
     (map Finite [1, 2]) = Inl ValueError"
  by (simp add: comparar_perfiles_main2_def sistema_conectado_def evaluar)

text \<open>
  \<^verbatim>\<open>main.py\<close> does not centre: an offset of 1 on every sample of the current profile
  turns a good part into a defective one. Its threshold is strict as well.
\<close>

lemma comparar_perfiles_main_offset:
  "comparar_perfiles_main (map Finite [0, 0, 0]) (map Finite [0, 0, 0]) = Inr False \<and>
   comparar_perfiles_main (map Finite [0 + 1, 0 + 1, 0 + 1]) (map Finite [0, 0, 0]) = Inr True"
  by (simp add: comparar_perfiles_main_def UMBRAL_TOLERANCIA_main_def evaluar)

lemma comparar_perfiles_main_threshold:
  "length current = length master \<Longrightarrow> current \<noteq> [] \<Longrightarrow>
   comparar_perfiles_main current master
     = Inr (list_all (\<lambda>d. \<not> isnan d) (map2 (\<lambda>x y. fabs (fsub x y)) current master) \<and>
            list_ex (\<lambda>d. fgt d (Finite (1 / 2))) (map2 (\<lambda>x y. fabs (fsub x y)) current master))"
proof -
  assume len: "length current = length master" and ne: "current \<noteq> []"
  have a: "np_abs (map2 fsub current master) = map2 (\<lambda>x y. fabs (fsub x y)) current master"
    by (simp add: np_abs_def map_zip_map map_zip_map2 split_def)
  have "map2 (\<lambda>x y. fabs (fsub x y)) current master \<noteq> []"
    using len ne by (cases current; cases master) auto
  then obtain d ds where d: "map2 (\<lambda>x y. fabs (fsub x y)) current master = d # ds"
    by (cases "map2 (\<lambda>x y. fabs (fsub x y)) current master") auto
  show ?thesis
    using len a d fgt_foldl_np_maximum [of d ds "Finite (1 / 2)"]
    by (simp add: comparar_perfiles_main_def UMBRAL_TOLERANCIA_main_def np_sub_def np_max_def)
qed

end
